theory Spec2Isabelle
  imports Complex_Main
begin

section \<open>Python values, dictionaries and abnormal termination\<close>

text \<open>
  The data formatter (\<^verbatim>\<open>similarity-analyzer/data_formatter/main.py\<close>) reads metric
  reports into dictionaries and writes one comparison table. A cell of a report or of
  the table is a Python value: text, a number, or \<^verbatim>\<open>None\<close>. Numbers are values of
  a type \<open>'n\<close> that stands for Python's floats; they are only stored, compared for
  equality as dictionary keys, and written, never computed with.
\<close>

datatype 'n pyval = PStr string | PNum 'n | PNone

text \<open>
  A Python \<^verbatim>\<open>dict\<close> keeps its keys in insertion order, and the predefined selection
  iterates \<^verbatim>\<open>datalist[0].keys()\<close> in that order. A dictionary is therefore an
  association list in insertion order. \<^verbatim>\<open>d[k] = v\<close> replaces the value of a key that
  is present (the key keeps its place) and appends a new key at the end.
\<close>

type_synonym ('k, 'v) dict = "('k \<times> 'v) list"

fun dict_setitem :: "('k, 'v) dict \<Rightarrow> 'k \<Rightarrow> 'v \<Rightarrow> ('k, 'v) dict" where
  "dict_setitem [] k v = [(k, v)]"
| "dict_setitem ((k', v') # d) k v =
     (if k' = k then (k', v) # d else (k', v') # dict_setitem d k v)"

text \<open>\<^verbatim>\<open>d[k]\<close>: \<open>None\<close> stands for the \<^verbatim>\<open>KeyError\<close>; \<^verbatim>\<open>k in d\<close> is \<open>dict_getitem d k \<noteq> None\<close>.\<close>

definition dict_getitem :: "('k, 'v) dict \<Rightarrow> 'k \<Rightarrow> 'v option" where
  "dict_getitem d k = map_of d k"

definition dict_keys :: "('k, 'v) dict \<Rightarrow> 'k list" where
  "dict_keys d = map fst d"

text \<open>\<^verbatim>\<open>dict(pairs)\<close>: the pairs are stored one after the other.\<close>

definition dict_of :: "('k \<times> 'v) list \<Rightarrow> ('k, 'v) dict" where
  "dict_of kvs = foldl (\<lambda>d (k, v). dict_setitem d k v) [] kvs"

type_synonym 'n dataset = "('n pyval, 'n pyval) dict"

text \<open>
  How the process can end other than by reaching the end of \<^verbatim>\<open>main\<close>:
  \<^item> \<open>SystemError msg\<close>: \<^verbatim>\<open>raise SystemError(msg)\<close>, caught nowhere;
  \<^item> \<open>SystemExit code\<close>: \<^verbatim>\<open>raise SystemExit(msg)\<close> (\<open>Some msg\<close>) or
    \<^verbatim>\<open>raise SystemExit()\<close> (\<open>None\<close>);
  \<^item> \<open>XLRDError_exit e\<close>: the handler \<^verbatim>\<open>except xlrd.XLRDError as e: print(e); sys.exit(1)\<close>;
  \<^item> \<open>ValueError\<close>, \<open>TypeError\<close>, \<open>IndexError\<close>, \<open>AttributeError\<close>: exceptions of
    built-in operations, caught nowhere.
\<close>

datatype failure =
    SystemError string
  | SystemExit "string option"
  | XLRDError_exit string
  | ValueError
  | TypeError
  | IndexError
  | AttributeError

text \<open>
  The exit status of the interpreter: an uncaught exception gives 1, \<^verbatim>\<open>sys.exit(1)\<close>
  gives 1, \<^verbatim>\<open>SystemExit\<close> with a message gives 1, and \<^verbatim>\<open>SystemExit\<close> without an
  argument (code \<^verbatim>\<open>None\<close>) gives 0.
\<close>

fun exit_status :: "failure + unit \<Rightarrow> nat" where
  "exit_status (Inr _) = 0"
| "exit_status (Inl (SystemExit None)) = 0"
| "exit_status (Inl _) = 1"

text \<open>
  Whether the ending prints a diagnostic: the interpreter prints the traceback of an
  uncaught exception and the message of a \<^verbatim>\<open>SystemExit\<close>, the handler of
  \<^verbatim>\<open>XLRDError\<close> prints the error; \<^verbatim>\<open>SystemExit()\<close> prints nothing.
\<close>

fun diagnostic :: "failure \<Rightarrow> bool" where
  "diagnostic (SystemExit None) = False"
| "diagnostic _ = True"

section \<open>String operations\<close>

fun startswith :: "string \<Rightarrow> string \<Rightarrow> bool" where
  "startswith s [] = True"
| "startswith [] (p # ps) = False"
| "startswith (c # cs) (p # ps) = (c = p \<and> startswith cs ps)"

definition endswith :: "string \<Rightarrow> string \<Rightarrow> bool" where
  "endswith s suffix = startswith (rev s) (rev suffix)"

text \<open>\<^verbatim>\<open>s.split(sep)\<close> for a one-character separator; the result is never empty.\<close>

fun split :: "char \<Rightarrow> string \<Rightarrow> string list" where
  "split sep [] = [[]]"
| "split sep (c # cs) =
     (if c = sep then [] # split sep cs
      else (c # hd (split sep cs)) # tl (split sep cs))"

section \<open>The environment: input files and written files\<close>

text \<open>
  The decoding libraries and the permission check are outside the program. The
  environment gives, for a path, the answer of \<^verbatim>\<open>os.access(path, os.R_OK)\<close>, the rows
  \<^verbatim>\<open>csv.reader\<close> yields from the file, and the outcome of \<^verbatim>\<open>xlrd.open_workbook\<close>:
  an \<^verbatim>\<open>XLRDError\<close> (\<open>Inl\<close>) or a workbook, whose \<^verbatim>\<open>sheet_by_name\<close> gives an
  \<^verbatim>\<open>XLRDError\<close> or the rows of cell values of the sheet.
\<close>

type_synonym 'n workbook = "string \<Rightarrow> string + 'n pyval list list"

record 'n env =
  access_ok :: "string \<Rightarrow> bool"
  csv_reader :: "string \<Rightarrow> string list list"
  open_workbook :: "string \<Rightarrow> string + 'n workbook"

text \<open>
  The files the program writes: a path is mapped to the rows handed to
  \<^verbatim>\<open>csvwriter.writerow\<close>, in order. \<^verbatim>\<open>open(out, "w")\<close> creates the file or empties an
  existing one; it is taken to succeed.
\<close>

type_synonym 'n fs = "string \<rightharpoonup> 'n pyval list list"

section \<open>Format readers\<close>

text \<open>
  \<^verbatim>\<open>csv.DictReader\<close>: the first row gives the field names; blank rows are skipped; a
  row is \<^verbatim>\<open>dict(zip(fieldnames, row))\<close>, and the fields a short row lacks are set to
  \<^verbatim>\<open>None\<close>. (The surplus of a long row is stored under the key \<^verbatim>\<open>None\<close>, which the
  program never looks up; it is left out.)
\<close>

definition DictReader_row :: "string list \<Rightarrow> string list \<Rightarrow> (string, string option) dict" where
  "DictReader_row fieldnames row =
     foldl (\<lambda>d key. dict_setitem d key None)
       (dict_of (zip fieldnames (map Some row)))
       (drop (length row) fieldnames)"

fun DictReader :: "string list list \<Rightarrow> (string, string option) dict list" where
  "DictReader [] = []"
| "DictReader (fieldnames # rest) =
     map (DictReader_row fieldnames) (filter (\<lambda>row. row \<noteq> []) rest)"

text \<open>
  The loop of \<^verbatim>\<open>csv2json\<close>. \<^verbatim>\<open>rows["metrics"]\<close> and \<^verbatim>\<open>rows["avg"]\<close> raise
  \<^verbatim>\<open>KeyError\<close> for a missing field, which the handler turns into \<^verbatim>\<open>SystemExit()\<close>.
  \<^verbatim>\<open>float\<close> is the parameter \<open>pyfloat\<close> (\<open>None\<close>: \<^verbatim>\<open>ValueError\<close>); \<^verbatim>\<open>float(None)\<close>
  is a \<^verbatim>\<open>TypeError\<close>.
\<close>

text \<open>A field of a row as a Python value: text, or \<^verbatim>\<open>None\<close> for a field the row lacks.\<close>

fun pykey :: "string option \<Rightarrow> 'n pyval" where
  "pykey None = PNone"
| "pykey (Some s) = PStr s"

fun csv2json_rows ::
  "(string \<Rightarrow> 'n option) \<Rightarrow> (string, string option) dict list \<Rightarrow> 'n dataset
    \<Rightarrow> failure + 'n dataset" where
  "csv2json_rows pyfloat [] data = Inr data"
| "csv2json_rows pyfloat (rows # rest) data =
     (case dict_getitem rows ''metrics'' of
        None \<Rightarrow> Inl (SystemExit None)
      | Some key \<Rightarrow>
          (case dict_getitem rows ''avg'' of
             None \<Rightarrow> Inl (SystemExit None)
           | Some avg \<Rightarrow>
               (case avg of
                  None \<Rightarrow> Inl TypeError
                | Some a \<Rightarrow>
                    (case pyfloat a of
                       None \<Rightarrow> Inl ValueError
                     | Some x \<Rightarrow>
                         csv2json_rows pyfloat rest
                           (dict_setitem data (pykey key) (PNum x))))))"

definition csv2json ::
  "'n env \<Rightarrow> (string \<Rightarrow> 'n option) \<Rightarrow> string \<Rightarrow> failure + 'n dataset" where
  "csv2json env pyfloat filename =
     (if access_ok env filename
      then csv2json_rows pyfloat (DictReader (csv_reader env filename)) []
      else Inl (SystemExit (Some (filename @ '' not accessible''))))"

text \<open>
  The loop of \<^verbatim>\<open>excel2json\<close> over the rows from index 1 on; \<^verbatim>\<open>row_values[0]\<close> and
  \<^verbatim>\<open>row_values[1]\<close> raise \<^verbatim>\<open>IndexError\<close> on a row with fewer than two cells.
\<close>

fun excel2json_rows :: "'n pyval list list \<Rightarrow> 'n dataset \<Rightarrow> failure + 'n dataset" where
  "excel2json_rows [] data = Inr data"
| "excel2json_rows (row_values # rest) data =
     (case row_values of
        metric # val # _ \<Rightarrow> excel2json_rows rest (dict_setitem data metric val)
      | _ \<Rightarrow> Inl IndexError)"

definition excel2json :: "'n env \<Rightarrow> string \<Rightarrow> string \<Rightarrow> failure + 'n dataset" where
  "excel2json env filename sheet =
     (if access_ok env filename
      then (case open_workbook env filename of
              Inl e \<Rightarrow> Inl (XLRDError_exit e)
            | Inr wb \<Rightarrow>
                (case wb sheet of
                   Inl e \<Rightarrow> Inl (XLRDError_exit e)
                 | Inr sh \<Rightarrow> excel2json_rows (drop 1 sh) []))
      else Inl (SystemExit (Some (filename @ '' not accessible''))))"

section \<open>Metric selection and the table\<close>

definition invalid_filename :: "string \<Rightarrow> failure + unit" where
  "invalid_filename filename =
     (if \<not> endswith filename ''.csv''
      then Inl (SystemError (filename @ '' isn't a csv format!''))
      else Inr ())"

definition well_known :: "string list" where
  "well_known =
     [''metric_CPU operating frequency (in GHz)'',
      ''metric_CPU utilization %'',
      ''metric_CPU utilization% in kernel mode'',
      ''metric_CPI'']"

text \<open>
  The list comprehension of \<^verbatim>\<open>compare_metrics\<close> over the keys of the first
  dataset. \<^verbatim>\<open>m.startswith\<close> is evaluated first, for every key; on a key that is not
  text it raises \<^verbatim>\<open>AttributeError\<close>.
\<close>

fun predefined_filter :: "'n pyval list \<Rightarrow> failure + 'n pyval list" where
  "predefined_filter [] = Inr []"
| "predefined_filter (m # ms) =
     (case m of
        PStr s \<Rightarrow>
          (case predefined_filter ms of
             Inl e \<Rightarrow> Inl e
           | Inr sel \<Rightarrow>
               Inr (if startswith s ''metric_TMA'' \<or> s \<in> set well_known
                    then m # sel else sel))
      | _ \<Rightarrow> Inl AttributeError)"

text \<open>\<^verbatim>\<open>datalist[0]\<close> raises \<^verbatim>\<open>IndexError\<close> on an empty list.\<close>

definition predefined_metrics :: "'n dataset list \<Rightarrow> failure + 'n pyval list" where
  "predefined_metrics datalist =
     (case datalist of
        [] \<Rightarrow> Inl IndexError
      | first # _ \<Rightarrow> predefined_filter (dict_keys first))"

text \<open>One data row: the metric, then for each dataset its value or \<^verbatim>\<open>"NA"\<close>.\<close>

definition rowlines :: "'n dataset list \<Rightarrow> 'n pyval \<Rightarrow> 'n pyval list" where
  "rowlines datalist metric =
     metric #
     map (\<lambda>data. case dict_getitem data metric of
                   Some v \<Rightarrow> v
                 | None \<Rightarrow> PStr ''NA'')
       datalist"

definition compare_metrics ::
  "'n pyval list \<Rightarrow> 'n dataset list \<Rightarrow> 'n pyval list \<Rightarrow> string \<Rightarrow> 'n fs
    \<Rightarrow> (failure + unit) \<times> 'n fs" where
  "compare_metrics metriclist datalist fields' out fs =
     (case (if metriclist = [] then predefined_metrics datalist else Inr metriclist) of
        Inl e \<Rightarrow> (Inl e, fs)
      | Inr selected \<Rightarrow>
          (case invalid_filename out of
             Inl e \<Rightarrow> (Inl e, fs)
           | Inr _ \<Rightarrow> (Inr (), fs(out \<mapsto> fields' # map (rowlines datalist) selected))))"

text \<open>
  \<^verbatim>\<open>list(set(allkeys))\<close> lists every distinct key once, in an order Python does not
  specify; the listing is the parameter \<open>list_of_set\<close>.
\<close>

definition allkeys :: "'n dataset list \<Rightarrow> 'n pyval list" where
  "allkeys datalist = concat (map dict_keys datalist)"

definition compare_metrics_all ::
  "('n pyval list \<Rightarrow> 'n pyval list) \<Rightarrow> 'n dataset list \<Rightarrow> 'n pyval list \<Rightarrow> string \<Rightarrow> 'n fs
    \<Rightarrow> (failure + unit) \<times> 'n fs" where
  "compare_metrics_all list_of_set datalist fields' out fs =
     (case invalid_filename out of
        Inl e \<Rightarrow> (Inl e, fs)
      | Inr _ \<Rightarrow>
          (Inr (),
           fs(out \<mapsto> fields' # map (rowlines datalist) (list_of_set (allkeys datalist)))))"

section \<open>The command line and \<^verbatim>\<open>main\<close>\<close>

record args =
  args_files :: "string option"
  args_metriclist :: "string list"
  args_output :: string
  args_perfspect :: bool

text \<open>
  The body of the loading loop of \<^verbatim>\<open>main\<close> picks the reader by the flag
  \<^verbatim>\<open>--perfspect\<close>; \<^verbatim>\<open>excel2json\<close> is called with its default sheet.
\<close>

definition read_file ::
  "'n env \<Rightarrow> (string \<Rightarrow> 'n option) \<Rightarrow> bool \<Rightarrow> string \<Rightarrow> failure + 'n dataset" where
  "read_file env pyfloat perfspect filename =
     (if perfspect then csv2json env pyfloat filename
      else excel2json env filename ''system view'')"

text \<open>The loading loop; the first reader that fails ends the run.\<close>

fun load ::
  "'n env \<Rightarrow> (string \<Rightarrow> 'n option) \<Rightarrow> bool \<Rightarrow> string list \<Rightarrow> 'n dataset list \<Rightarrow> 'n pyval list
    \<Rightarrow> failure + ('n dataset list \<times> 'n pyval list)" where
  "load env pyfloat perfspect [] jsondata fields' = Inr (jsondata, fields')"
| "load env pyfloat perfspect (filename # rest) jsondata fields' =
     (case read_file env pyfloat perfspect filename of
        Inl e \<Rightarrow> Inl e
      | Inr data \<Rightarrow>
          load env pyfloat perfspect rest (jsondata @ [data]) (fields' @ [PStr filename]))"

text \<open>
  \<^verbatim>\<open>main\<close>, from the parsed arguments on. \<^verbatim>\<open>if args.files\<close> is false for a missing
  flag and for the empty text. The progress messages printed on standard output are
  not part of the model. The result is how the process ends (\<open>Inr ()\<close>: the end of
  \<^verbatim>\<open>main\<close> is reached) and the written files.
\<close>

definition main ::
  "'n env \<Rightarrow> (string \<Rightarrow> 'n option) \<Rightarrow> ('n pyval list \<Rightarrow> 'n pyval list) \<Rightarrow> args \<Rightarrow> 'n fs
    \<Rightarrow> (failure + unit) \<times> 'n fs" where
  "main env pyfloat list_of_set args fs =
     (case args_files args of
        None \<Rightarrow> (Inl (SystemError ''-f or --files is a required flag''), fs)
      | Some files \<Rightarrow>
          if files = [] then (Inl (SystemError ''-f or --files is a required flag''), fs)
          else
            (case load env pyfloat (args_perfspect args) (split CHR '','' files) []
                    [PStr ''Metric''] of
               Inl e \<Rightarrow> (Inl e, fs)
             | Inr (jsondata, fields') \<Rightarrow>
                 if args_metriclist args \<noteq> []
                 then compare_metrics
                        (if args_metriclist args = [''d''] then []
                         else map PStr (args_metriclist args))
                        jsondata fields' (args_output args) fs
                 else compare_metrics_all list_of_set jsondata fields' (args_output args) fs))"

section \<open>Fatal endings\<close>

text \<open>
  A run that ended with the failure \<open>e\<close> as a fatal condition should: nothing was
  written, the exit status is 1, and a diagnostic was printed.
\<close>

definition fatal :: "(failure + unit) \<times> 'n fs \<Rightarrow> 'n fs \<Rightarrow> failure \<Rightarrow> bool" where
  "fatal run fs e = (run = (Inl e, fs) \<and> exit_status (fst run) = 1 \<and> diagnostic e)"

text \<open>
  The files flag names the files \<open>pre\<close>, then \<open>filename\<close>, then \<open>post\<close>, and the reader
  loads every file of \<open>pre\<close>: \<open>filename\<close> is the first file on which the run can fail.
\<close>

definition loads_until ::
  "'n env \<Rightarrow> (string \<Rightarrow> 'n option) \<Rightarrow> args \<Rightarrow> string list \<Rightarrow> string \<Rightarrow> string list
    \<Rightarrow> bool" where
  "loads_until env pyfloat args pre filename post =
     (case args_files args of
        None \<Rightarrow> False
      | Some files \<Rightarrow>
          files \<noteq> [] \<and> split CHR '','' files = pre @ filename # post \<and>
          (\<forall>f\<in>set pre. \<not> isl (read_file env pyfloat (args_perfspect args) f)))"

section \<open>Example inputs\<close>

text \<open>
  Concrete inputs on which the results below are instantiated. The files \<^verbatim>\<open>A\<close> and
  \<^verbatim>\<open>B\<close> are the two reports of the end-to-end scenario of the specification;
  \<^verbatim>\<open>D\<close> repeats a metric, the header of \<^verbatim>\<open>H\<close> and of \<^verbatim>\<open>M\<close> has no column
  \<^verbatim>\<open>metrics\<close> (\<^verbatim>\<open>H\<close> has no data row, \<^verbatim>\<open>M\<close> has one), \<^verbatim>\<open>N\<close> has an
  \<^verbatim>\<open>avg\<close> that is not a number, and every other path is unreadable. Numbers are reals.
\<close>

definition ex_float :: "string \<Rightarrow> real option" where
  "ex_float s =
     (if s = ''1.5'' then Some 1.5
      else if s = ''2.0'' then Some 2.0
      else if s = ''0.3'' then Some 0.3
      else None)"

definition ex_csv :: "string \<Rightarrow> string list list" where
  "ex_csv path =
     (if path = ''A'' then [[''metrics'', ''avg''], [''metric_CPI'', ''1.5'']]
      else if path = ''B'' then
        [[''metrics'', ''avg''], [''metric_CPI'', ''2.0''], [''metric_TMA_Frontend'', ''0.3'']]
      else if path = ''D'' then
        [[''metrics'', ''avg''], [''metric_CPI'', ''1.5''], [''metric_CPI'', ''2.0''],
         [''metric_TMA_Frontend'', ''0.3'']]
      else if path = ''H'' then [[''name'', ''avg'']]
      else if path = ''M'' then [[''name'', ''avg''], [''metric_CPI'', ''1.5'']]
      else if path = ''N'' then [[''metrics'', ''avg''], [''metric_CPI'', ''fast'']]
      else [])"

definition ex_env :: "real env" where
  "ex_env =
     \<lparr>access_ok = (\<lambda>path. path \<in> set [''A'', ''B'', ''D'', ''H'', ''M'', ''N'']),
      csv_reader = ex_csv,
      open_workbook = (\<lambda>path. Inl ''Unsupported format, or corrupt file'')\<rparr>"

definition ex_args :: args where
  "ex_args =
     \<lparr>args_files = Some ''A,B'',
      args_metriclist = [''metric_CPI'', ''metric_TMA_Frontend''],
      args_output = ''compareFile.csv'',
      args_perfspect = True\<rparr>"

definition ex_A :: "real dataset" where
  "ex_A = [(PStr ''metric_CPI'', PNum 1.5)]"

definition ex_B :: "real dataset" where
  "ex_B = [(PStr ''metric_CPI'', PNum 2.0), (PStr ''metric_TMA_Frontend'', PNum 0.3)]"

definition ex_D :: "real dataset" where
  "ex_D = [(PStr ''metric_CPI'', PNum 2.0), (PStr ''metric_TMA_Frontend'', PNum 0.3)]"

definition ex_first :: "real dataset" where
  "ex_first =
     [(PStr ''metric_CPI'', PNum 1.5),
      (PStr ''metric_package power (watts)'', PNum 2.0),
      (PStr ''metric_TMA_Backend'', PNum 0.3)]"

section \<open>Properties of the building blocks\<close>

lemma map_of_dict_setitem: "map_of (dict_setitem d k v) = (map_of d)(k \<mapsto> v)"
  by (induction d) (auto simp: fun_eq_iff)

lemma dict_getitem_setitem:
  "dict_getitem (dict_setitem d k v) k' = (if k' = k then Some v else dict_getitem d k')"
  by (simp add: dict_getitem_def map_of_dict_setitem)

lemma dict_keys_setitem:
  "dict_keys (dict_setitem d k v) =
     (if k \<in> set (dict_keys d) then dict_keys d else dict_keys d @ [k])"
  by (induction d) (force simp: dict_keys_def)+

lemma keys_dict_setitem: "set (dict_keys (dict_setitem d k v)) = insert k (set (dict_keys d))"
  by (auto simp: dict_keys_setitem)

lemma dict_getitem_None_iff: "dict_getitem d k = None \<longleftrightarrow> k \<notin> set (dict_keys d)"
  by (simp add: dict_getitem_def dict_keys_def map_of_eq_None_iff)

lemma split_no_sep: "sep \<notin> set s \<Longrightarrow> split sep s = [s]"
  by (induction s) auto

lemma split_nonempty: "split sep s \<noteq> []"
  by (induction s) simp_all

lemma length_rowlines: "length (rowlines datalist metric) = 1 + length datalist"
  by (simp add: rowlines_def)

lemma hd_rowlines: "map hd (map (rowlines datalist) ms) = ms"
  by (induction ms) (simp_all add: rowlines_def)

lemma rowlines_nth:
  "i < length datalist \<Longrightarrow>
   rowlines datalist metric ! (i + 1) =
     (case dict_getitem (datalist ! i) metric of Some v \<Rightarrow> v | None \<Rightarrow> PStr ''NA'')"
  by (simp add: rowlines_def)

lemma rowlines_absent:
  "\<forall>data\<in>set datalist. dict_getitem data m = None \<Longrightarrow>
   rowlines datalist m = m # replicate (length datalist) (PStr ''NA'')"
  by (induction datalist) (simp_all add: rowlines_def)

lemma predefined_filter_strings:
  "predefined_filter (map PStr names) =
     Inr (map PStr (filter (\<lambda>s. startswith s ''metric_TMA'' \<or> s \<in> set well_known) names))"
  by (induction names) simp_all

lemma load_shape:
  "load env pyfloat p filenames jsondata fields' = Inr (jsondata', fields'') \<Longrightarrow>
     length jsondata' = length jsondata + length filenames \<and>
     fields'' = fields' @ map PStr filenames"
proof (induction filenames arbitrary: jsondata fields')
  case Nil
  then show ?case by simp
next
  case (Cons filename rest)
  from Cons.prems obtain data where d: "read_file env pyfloat p filename = Inr data"
    by (cases "read_file env pyfloat p filename") simp_all
  with Cons.prems have
    "load env pyfloat p rest (jsondata @ [data]) (fields' @ [PStr filename]) = Inr (jsondata', fields'')"
    by simp
  from Cons.IH[OF this] show ?case by simp
qed

lemma load_fails:
  "filename \<in> set filenames \<Longrightarrow> read_file env pyfloat p filename = Inl e \<Longrightarrow>
   \<exists>e'. load env pyfloat p filenames jsondata fields' = Inl e'"
proof (induction filenames arbitrary: jsondata fields')
  case Nil
  then show ?case by simp
next
  case (Cons f rest)
  show ?case
  proof (cases "read_file env pyfloat p f")
    case (Inl e0)
    then show ?thesis by simp
  next
    case (Inr data)
    with Cons.prems have "filename \<in> set rest" by auto
    from Cons.IH[OF this Cons.prems(2)] Inr show ?thesis by simp
  qed
qed

lemma load_first_failure:
  "\<forall>f\<in>set pre. \<exists>data. read_file env pyfloat p f = Inr data \<Longrightarrow>
   read_file env pyfloat p filename = Inl e \<Longrightarrow>
   load env pyfloat p (pre @ filename # post) jsondata fields' = Inl e"
proof (induction pre arbitrary: jsondata fields')
  case Nil
  then show ?case by simp
next
  case (Cons f pre)
  from Cons.prems(1) obtain data where "read_file env pyfloat p f = Inr data" by auto
  moreover from Cons.prems(1) have "\<forall>f\<in>set pre. \<exists>data. read_file env pyfloat p f = Inr data"
    by simp
  ultimately show ?case using Cons.IH Cons.prems(2) by simp
qed

lemma compare_metrics_Inr:
  "compare_metrics metriclist datalist fields' out fs = (Inr (), fs') \<Longrightarrow>
   \<exists>selected. (if metriclist = [] then predefined_metrics datalist = Inr selected
                 else selected = metriclist) \<and>
      fs' = fs(out \<mapsto> fields' # map (rowlines datalist) selected)"
  by (auto simp: compare_metrics_def split: sum.splits if_splits)

lemma compare_metrics_all_Inr:
  "compare_metrics_all list_of_set datalist fields' out fs = (Inr (), fs') \<Longrightarrow>
      fs' = fs(out \<mapsto> fields' # map (rowlines datalist) (list_of_set (allkeys datalist)))"
  by (auto simp: compare_metrics_all_def split: sum.splits if_splits)

lemma compare_metrics_valid:
  "endswith out ''.csv'' \<Longrightarrow>
   (if metriclist = [] then predefined_metrics datalist = Inr selected
    else selected = metriclist) \<Longrightarrow>
   compare_metrics metriclist datalist fields' out fs =
     (Inr (), fs(out \<mapsto> fields' # map (rowlines datalist) selected))"
  by (auto simp: compare_metrics_def invalid_filename_def split: if_splits)

lemma compare_metrics_all_valid:
  "endswith out ''.csv'' \<Longrightarrow>
   compare_metrics_all list_of_set datalist fields' out fs =
     (Inr (), fs(out \<mapsto> fields' # map (rowlines datalist) (list_of_set (allkeys datalist))))"
  by (simp add: compare_metrics_all_def invalid_filename_def)

lemma compare_metrics_invalid:
  "\<not> endswith out ''.csv'' \<Longrightarrow>
   \<exists>e. compare_metrics metriclist datalist fields' out fs = (Inl e, fs)"
  by (auto simp: compare_metrics_def invalid_filename_def split: sum.splits)

lemma compare_metrics_all_invalid:
  "\<not> endswith out ''.csv'' \<Longrightarrow>
   compare_metrics_all list_of_set datalist fields' out fs =
     (Inl (SystemError (out @ '' isn't a csv format!'')), fs)"
  by (simp add: compare_metrics_all_def invalid_filename_def)

lemma main_no_files:
  "args_files args = None \<or> args_files args = Some [] \<Longrightarrow>
   main env pyfloat list_of_set args fs =
     (Inl (SystemError ''-f or --files is a required flag''), fs)"
  by (auto simp: main_def)

lemma main_load_fails:
  "args_files args = Some files \<Longrightarrow> files \<noteq> [] \<Longrightarrow>
   load env pyfloat (args_perfspect args) (split CHR '','' files) [] [PStr ''Metric''] = Inl e \<Longrightarrow>
   main env pyfloat list_of_set args fs = (Inl e, fs)"
  by (simp add: main_def)

lemma main_loaded:
  "args_files args = Some files \<Longrightarrow> files \<noteq> [] \<Longrightarrow>
   load env pyfloat (args_perfspect args) (split CHR '','' files) [] [PStr ''Metric'']
     = Inr (jsondata, fields') \<Longrightarrow>
   main env pyfloat list_of_set args fs =
     (if args_metriclist args \<noteq> []
      then compare_metrics
             (if args_metriclist args = [''d''] then [] else map PStr (args_metriclist args))
             jsondata fields' (args_output args) fs
      else compare_metrics_all list_of_set jsondata fields' (args_output args) fs)"
  by (simp add: main_def)

lemma main_Inr:
  assumes "main env pyfloat list_of_set args fs = (Inr (), fs')"
  shows "\<exists>files jsondata selected.
           args_files args = Some files \<and>
           load env pyfloat (args_perfspect args) (split CHR '','' files) [] [PStr ''Metric'']
             = Inr (jsondata, PStr ''Metric'' # map PStr (split CHR '','' files)) \<and>
           length jsondata = length (split CHR '','' files) \<and>
           (if args_metriclist args = [] then selected = list_of_set (allkeys jsondata)
            else if args_metriclist args = [''d''] then predefined_metrics jsondata = Inr selected
            else selected = map PStr (args_metriclist args)) \<and>
           fs' = fs(args_output args \<mapsto>
                  (PStr ''Metric'' # map PStr (split CHR '','' files)) #
                  map (rowlines jsondata) selected)"
proof -
  from assms obtain files where f: "args_files args = Some files" "files \<noteq> []"
    by (auto simp: main_def split: option.splits if_splits)
  let ?fns = "split CHR '','' files"
  from assms f obtain jsondata fields' where
    l: "load env pyfloat (args_perfspect args) ?fns [] [PStr ''Metric''] = Inr (jsondata, fields')"
    by (auto simp: main_def split: sum.splits)
  from load_shape[OF l] have sh: "length jsondata = length ?fns"
    "fields' = PStr ''Metric'' # map PStr ?fns" by simp_all
  show ?thesis
  proof (cases "args_metriclist args = []")
    case True
    with assms f l have "compare_metrics_all list_of_set jsondata fields' (args_output args) fs = (Inr (), fs')"
      by (simp add: main_loaded)
    from compare_metrics_all_Inr[OF this] f l sh True show ?thesis by auto
  next
    case False
    with assms f l have "compare_metrics (if args_metriclist args = [''d''] then []
                         else map PStr (args_metriclist args)) jsondata fields' (args_output args) fs = (Inr (), fs')"
      by (simp add: main_loaded)
    from compare_metrics_Inr[OF this] f l sh False show ?thesis by (auto split: if_splits)
  qed
qed

lemma main_fails_unchanged:
  "main env pyfloat list_of_set args fs = (Inl e, fs') \<Longrightarrow> fs' = fs"
  by (auto simp: main_def compare_metrics_def compare_metrics_all_def
      split: option.splits if_splits sum.splits prod.splits)

lemma pykey_inj: "pykey a = pykey b \<Longrightarrow> a = b"
  by (cases a; cases b) simp_all

lemma csv2json_rows_append:
  "csv2json_rows pyfloat (pre @ rows) data =
     (case csv2json_rows pyfloat pre data of
        Inl e \<Rightarrow> Inl e
      | Inr mid \<Rightarrow> csv2json_rows pyfloat rows mid)"
  by (induction pre arbitrary: data) (simp_all split: option.splits)

lemma csv2json_rows_step:
  assumes "csv2json_rows pyfloat (r # rest) data = Inr data'"
    and "dict_getitem r ''metrics'' = Some key"
  shows "\<exists>a x. dict_getitem r ''avg'' = Some (Some a) \<and> pyfloat a = Some x \<and>
           csv2json_rows pyfloat rest (dict_setitem data (pykey key) (PNum x)) = Inr data'"
  using assms by (auto split: option.splits)

lemma csv2json_rows_other_keys:
  "csv2json_rows pyfloat rows data = Inr data' \<Longrightarrow>
   \<forall>r\<in>set rows. dict_getitem r ''metrics'' \<noteq> Some key \<Longrightarrow>
   dict_getitem data' (pykey key) = dict_getitem data (pykey key)"
proof (induction rows arbitrary: data)
  case Nil
  then show ?case by simp
next
  case (Cons r rows)
  from Cons.prems(1) obtain k where k: "dict_getitem r ''metrics'' = Some k"
    by (auto split: option.splits)
  from csv2json_rows_step[OF Cons.prems(1) k] obtain a x where
    s: "csv2json_rows pyfloat rows (dict_setitem data (pykey k) (PNum x)) = Inr data'"
    by blast
  from Cons.prems(2) k have "k \<noteq> key" by auto
  then have ne: "pykey key \<noteq> (pykey k :: 'a pyval)" using pykey_inj by metis
  from Cons.prems(2) have "\<forall>r\<in>set rows. dict_getitem r ''metrics'' \<noteq> Some key" by simp
  from Cons.IH[OF s this] ne show ?case by (simp add: dict_getitem_setitem)
qed

lemma read_file_unreadable:
  "\<not> access_ok env filename \<Longrightarrow>
   read_file env pyfloat perfspect filename =
     Inl (SystemExit (Some (filename @ '' not accessible'')))"
  by (simp add: read_file_def csv2json_def excel2json_def)

lemma keys_foldl_setitem_pairs:
  "set (dict_keys (foldl (\<lambda>d (k, v). dict_setitem d k v) d kvs)) =
     set (dict_keys d) \<union> fst ` set kvs"
  by (induction kvs arbitrary: d) (auto simp: keys_dict_setitem)

lemma keys_foldl_setitem_None:
  "set (dict_keys (foldl (\<lambda>d key. dict_setitem d key None) d ks)) = set (dict_keys d) \<union> set ks"
  by (induction ks arbitrary: d) (auto simp: keys_dict_setitem)

lemma keys_DictReader_row: "set (dict_keys (DictReader_row fieldnames row)) \<subseteq> set fieldnames"
proof -
  have "fst ` set (zip fieldnames (map Some row)) \<subseteq> set fieldnames"
    by (auto dest: set_zip_leftD)
  moreover have "set (drop (length row) fieldnames) \<subseteq> set fieldnames"
    by (rule set_drop_subset)
  moreover have "set (dict_keys (DictReader_row fieldnames row)) =
      fst ` set (zip fieldnames (map Some row)) \<union> set (drop (length row) fieldnames)"
    by (simp add: DictReader_row_def dict_of_def keys_foldl_setitem_None
        keys_foldl_setitem_pairs dict_keys_def[of "[]"])
  ultimately show ?thesis by simp
qed

lemma DictReader_row_missing:
  "k \<notin> set fieldnames \<Longrightarrow> dict_getitem (DictReader_row fieldnames row) k = None"
  using keys_DictReader_row[of fieldnames row] by (auto simp: dict_getitem_None_iff)

lemma csv2json_rows_missing_column:
  assumes "dict_getitem r ''metrics'' = None \<or> dict_getitem r ''avg'' = None"
  shows "csv2json_rows pyfloat (r # rest) data = Inl (SystemExit None)"
  using assms by (auto split: option.splits)

lemma read_file_missing_column:
  assumes "access_ok env filename"
    and "csv_reader env filename = fieldnames # rest"
    and "''metrics'' \<notin> set fieldnames \<or> ''avg'' \<notin> set fieldnames"
    and "\<exists>row\<in>set rest. row \<noteq> []"
  shows "read_file env pyfloat True filename = Inl (SystemExit None)"
proof -
  from assms(4) have "filter (\<lambda>row. row \<noteq> []) rest \<noteq> []"
    by (simp add: filter_empty_conv)
  then obtain row more where f: "filter (\<lambda>row. row \<noteq> []) rest = row # more"
    by (cases "filter (\<lambda>row. row \<noteq> []) rest") simp_all
  let ?r = "DictReader_row fieldnames row"
  from assms(3) have "dict_getitem ?r ''metrics'' = None \<or> dict_getitem ?r ''avg'' = None"
    using DictReader_row_missing[of "''metrics''" fieldnames row]
      DictReader_row_missing[of "''avg''" fieldnames row] by auto
  from csv2json_rows_missing_column[OF this]
  have "csv2json_rows pyfloat (?r # map (DictReader_row fieldnames) more) [] = Inl (SystemExit None)" .
  with assms(1,2) f show ?thesis by (simp add: read_file_def csv2json_def)
qed

lemma read_file_xlrd:
  assumes "access_ok env filename"
    and "open_workbook env filename = Inl msg \<or>
         (\<exists>wb. open_workbook env filename = Inr wb \<and> wb ''system view'' = Inl msg)"
  shows "read_file env pyfloat False filename = Inl (XLRDError_exit msg)"
  using assms by (auto simp: read_file_def excel2json_def)

lemma read_file_bad_avg:
  assumes "access_ok env filename"
    and "DictReader (csv_reader env filename) = rs @ r # rs'"
    and "csv2json_rows pyfloat rs [] = Inr d"
    and "dict_getitem r ''metrics'' = Some key"
    and "dict_getitem r ''avg'' = Some (Some a)"
    and "pyfloat a = None"
  shows "read_file env pyfloat True filename = Inl ValueError"
  using assms by (simp add: read_file_def csv2json_def csv2json_rows_append)

lemma main_first_failure:
  assumes "loads_until env pyfloat args pre filename post"
    and "read_file env pyfloat (args_perfspect args) filename = Inl e"
  shows "main env pyfloat list_of_set args fs = (Inl e, fs)"
proof -
  from assms(1) obtain files where f: "args_files args = Some files" "files \<noteq> []"
    and s: "split CHR '','' files = pre @ filename # post"
    and p: "\<forall>f\<in>set pre. \<not> isl (read_file env pyfloat (args_perfspect args) f)"
    by (auto simp: loads_until_def split: option.splits)
  have "\<forall>f\<in>set pre. \<exists>data. read_file env pyfloat (args_perfspect args) f = Inr data"
  proof
    fix f assume "f \<in> set pre"
    with p have "\<not> isl (read_file env pyfloat (args_perfspect args) f)" by blast
    then show "\<exists>data. read_file env pyfloat (args_perfspect args) f = Inr data"
      by (cases "read_file env pyfloat (args_perfspect args) f") simp_all
  qed
  from load_first_failure[OF this assms(2)] s
  have "load env pyfloat (args_perfspect args) (split CHR '','' files) [] [PStr ''Metric''] = Inl e"
    by simp
  from main_load_fails[OF f this] show ?thesis .
qed

lemma main_invalid_extension:
  assumes "args_files args = Some files" and "files \<noteq> []"
    and "load env pyfloat (args_perfspect args) (split CHR '','' files) [] [PStr ''Metric'']
           = Inr (jsondata, fields')"
    and "\<not> endswith (args_output args) ''.csv''"
    and "args_metriclist args = [''d''] \<longrightarrow> (\<exists>sel. predefined_metrics jsondata = Inr sel)"
  shows "main env pyfloat list_of_set args fs =
           (Inl (SystemError (args_output args @ '' isn't a csv format!'')), fs)"
  using assms(4,5)
  by (auto simp: main_loaded[OF assms(1,2,3)] compare_metrics_all_invalid
      compare_metrics_def invalid_filename_def)

lemma fatalI:
  "run = (Inl e, fs) \<Longrightarrow> exit_status (Inl e) = 1 \<Longrightarrow> diagnostic e \<Longrightarrow> fatal run fs e"
  by (simp add: fatal_def)

lemma load_total:
  "map (read_file env pyfloat p) filenames = map Inr datasets \<Longrightarrow>
   load env pyfloat p filenames jsondata fields' =
     Inr (jsondata @ datasets, fields' @ map PStr filenames)"
proof (induction filenames arbitrary: datasets jsondata fields')
  case Nil
  then show ?case by simp
next
  case (Cons filename rest)
  from Cons.prems obtain data more where d: "datasets = data # more"
    and r: "read_file env pyfloat p filename = Inr data"
    and m: "map (read_file env pyfloat p) rest = map Inr more"
    by (cases datasets) auto
  from Cons.IH[OF m] r d show ?case by simp
qed

lemma rowlines_cells:
  "j < length selected \<Longrightarrow>
   map (rowlines datalist) selected ! j ! 0 = selected ! j \<and>
   (\<forall>i<length datalist.
      map (rowlines datalist) selected ! j ! (i + 1) =
        (case dict_getitem (datalist ! i) (selected ! j) of
           Some v \<Rightarrow> v
         | None \<Rightarrow> PStr ''NA''))"
  by (simp add: rowlines_def)

text \<open>
  The columns are looked up when a data row is read, never on the header alone: a
  readable header-CSV file without a data row that is not blank loads as the empty
  mapping, whatever its header is.
\<close>

lemma header_only_loads_empty:
  assumes "access_ok env filename"
    and "csv_reader env filename = fieldnames # rest"
    and "\<forall>row\<in>set rest. row = []"
  shows "read_file env pyfloat True filename = Inr []"
proof -
  from assms(3) have "filter (\<lambda>row. row \<noteq> []) rest = []"
    by (simp add: filter_empty_conv)
  with assms(1,2) show ?thesis by (simp add: read_file_def csv2json_def)
qed

text \<open>
  Each of these conditions, when it is the first failure of the run, ends the run with
  exit status 1, a diagnostic and nothing written: a missing or empty files flag; an
  unreadable input; an \<^verbatim>\<open>XLRDError\<close> from opening the workbook or from a sheet that
  does not exist; an \<^verbatim>\<open>avg\<close> that \<^verbatim>\<open>float\<close> rejects; a destination that does not end
  with \<^verbatim>\<open>.csv\<close>.
\<close>

lemma sibling_failures_fatal:
  "(args_files args = None \<or> args_files args = Some [] \<longrightarrow>
      fatal (main env pyfloat list_of_set args fs) fs
        (SystemError ''-f or --files is a required flag'')) \<and>
   (loads_until env pyfloat args pre filename post \<and> \<not> access_ok env filename \<longrightarrow>
      fatal (main env pyfloat list_of_set args fs) fs
        (SystemExit (Some (filename @ '' not accessible'')))) \<and>
   (loads_until env pyfloat args pre filename post \<and> access_ok env filename \<and>
    \<not> args_perfspect args \<and>
    (open_workbook env filename = Inl msg \<or>
     (\<exists>wb. open_workbook env filename = Inr wb \<and> wb ''system view'' = Inl msg)) \<longrightarrow>
      fatal (main env pyfloat list_of_set args fs) fs (XLRDError_exit msg)) \<and>
   (loads_until env pyfloat args pre filename post \<and> access_ok env filename \<and>
    args_perfspect args \<and>
    DictReader (csv_reader env filename) = rs @ r # rs' \<and>
    csv2json_rows pyfloat rs [] = Inr d \<and>
    dict_getitem r ''metrics'' = Some key \<and>
    dict_getitem r ''avg'' = Some (Some a) \<and> pyfloat a = None \<longrightarrow>
      fatal (main env pyfloat list_of_set args fs) fs ValueError) \<and>
   (args_files args = Some files \<and> files \<noteq> [] \<and>
    load env pyfloat (args_perfspect args) (split CHR '','' files) [] [PStr ''Metric'']
      = Inr (jsondata, fields') \<and>
    \<not> endswith (args_output args) ''.csv'' \<and>
    (args_metriclist args = [''d''] \<longrightarrow> (\<exists>sel. predefined_metrics jsondata = Inr sel)) \<longrightarrow>
      fatal (main env pyfloat list_of_set args fs) fs
        (SystemError (args_output args @ '' isn't a csv format!'')))"
proof (intro conjI impI; (elim conjE)?)
  assume "args_files args = None \<or> args_files args = Some []"
  from main_no_files[OF this]
  show "fatal (main env pyfloat list_of_set args fs) fs
        (SystemError ''-f or --files is a required flag'')"
    by (intro fatalI) simp_all
next
  assume "loads_until env pyfloat args pre filename post" "\<not> access_ok env filename"
  from main_first_failure[OF this(1) read_file_unreadable[OF this(2)]]
  show "fatal (main env pyfloat list_of_set args fs) fs
        (SystemExit (Some (filename @ '' not accessible'')))"
    by (intro fatalI) simp_all
next
  assume l: "loads_until env pyfloat args pre filename post" and a: "access_ok env filename"
    and p: "\<not> args_perfspect args"
    and x: "open_workbook env filename = Inl msg \<or>
     (\<exists>wb. open_workbook env filename = Inr wb \<and> wb ''system view'' = Inl msg)"
  from read_file_xlrd[OF a x] p
  have "read_file env pyfloat (args_perfspect args) filename = Inl (XLRDError_exit msg)"
    by simp
  from main_first_failure[OF l this]
  show "fatal (main env pyfloat list_of_set args fs) fs (XLRDError_exit msg)"
    by (intro fatalI) simp_all
next
  assume l: "loads_until env pyfloat args pre filename post" and a: "access_ok env filename"
    and p: "args_perfspect args"
    and r: "DictReader (csv_reader env filename) = rs @ r # rs'"
      "csv2json_rows pyfloat rs [] = Inr d"
      "dict_getitem r ''metrics'' = Some key"
      "dict_getitem r ''avg'' = Some (Some a)" "pyfloat a = None"
  from read_file_bad_avg[OF a r] p
  have "read_file env pyfloat (args_perfspect args) filename = Inl ValueError" by simp
  from main_first_failure[OF l this]
  show "fatal (main env pyfloat list_of_set args fs) fs ValueError"
    by (intro fatalI) simp_all
next
  assume "args_files args = Some files" "files \<noteq> []"
    "load env pyfloat (args_perfspect args) (split CHR '','' files) [] [PStr ''Metric'']
      = Inr (jsondata, fields')"
    "\<not> endswith (args_output args) ''.csv''"
    "args_metriclist args = [''d''] \<longrightarrow> (\<exists>sel. predefined_metrics jsondata = Inr sel)"
  from main_invalid_extension[OF this]
  show "fatal (main env pyfloat list_of_set args fs) fs
        (SystemError (args_output args @ '' isn't a csv format!''))"
    by (intro fatalI) simp_all
qed

section \<open>The example inputs, evaluated\<close>

lemma ex_args_sel:
  "args_files ex_args = Some ''A,B''"
  "args_metriclist ex_args = [''metric_CPI'', ''metric_TMA_Frontend'']"
  "args_output ex_args = ''compareFile.csv''"
  "args_perfspect ex_args = True"
  by (simp_all add: ex_args_def)

lemma ex_read_A: "read_file ex_env ex_float True ''A'' = Inr ex_A"
  by (simp add: read_file_def csv2json_def ex_env_def ex_csv_def ex_float_def ex_A_def
      DictReader_row_def dict_of_def dict_getitem_def)

lemma ex_read_B: "read_file ex_env ex_float True ''B'' = Inr ex_B"
  by (simp add: read_file_def csv2json_def ex_env_def ex_csv_def ex_float_def ex_B_def
      DictReader_row_def dict_of_def dict_getitem_def)

lemma ex_load:
  "load ex_env ex_float (args_perfspect ex_args) (split CHR '','' ''A,B'') [] [PStr ''Metric''] =
     Inr ([ex_A, ex_B], [PStr ''Metric'', PStr ''A'', PStr ''B''])"
  by (simp add: ex_args_sel ex_read_A ex_read_B)

lemma ex_out: "endswith ''compareFile.csv'' ''.csv''"
  by (simp add: endswith_def)

lemma ex_main:
  "main ex_env ex_float remdups ex_args Map.empty =
     (Inr (), [''compareFile.csv'' \<mapsto>
        [[PStr ''Metric'', PStr ''A'', PStr ''B''],
         [PStr ''metric_CPI'', PNum 1.5, PNum 2.0],
         [PStr ''metric_TMA_Frontend'', PStr ''NA'', PNum 0.3]]])"
proof -
  have ne: "''A,B'' \<noteq> []" by simp
  show ?thesis
    by (simp add: main_loaded[OF ex_args_sel(1) ne ex_load] ex_args_sel
        compare_metrics_valid[OF ex_out, where selected = "map PStr [''metric_CPI'', ''metric_TMA_Frontend'']"]
        rowlines_def dict_getitem_def ex_A_def ex_B_def)
qed

lemma ex_rows_D:
  "DictReader (csv_reader ex_env ''D'') =
     [[(''metrics'', Some ''metric_CPI''), (''avg'', Some ''1.5'')]] @
     [(''metrics'', Some ''metric_CPI''), (''avg'', Some ''2.0'')] #
     [[(''metrics'', Some ''metric_TMA_Frontend''), (''avg'', Some ''0.3'')]]"
  by (simp add: ex_env_def ex_csv_def DictReader_row_def dict_of_def)

lemma ex_read_D: "csv2json ex_env ex_float ''D'' = Inr ex_D"
  by (simp add: csv2json_def ex_env_def ex_csv_def ex_float_def ex_D_def
      DictReader_row_def dict_of_def dict_getitem_def)

lemma ex_read_H: "read_file ex_env ex_float True ''H'' = Inr []"
  by (simp add: read_file_def csv2json_def ex_env_def ex_csv_def)

lemma ex_read_M: "read_file ex_env ex_float True ''M'' = Inl (SystemExit None)"
  by (simp add: read_file_def csv2json_def ex_env_def ex_csv_def
      DictReader_row_def dict_of_def dict_getitem_def)

lemma ex_read_N: "read_file ex_env ex_float True ''N'' = Inl ValueError"
  by (simp add: read_file_def csv2json_def ex_env_def ex_csv_def ex_float_def
      DictReader_row_def dict_of_def dict_getitem_def)

lemma ex_reads:
  "map (read_file ex_env ex_float True) (split CHR '','' ''A,B'') = map Inr [ex_A, ex_B]"
  by (simp add: ex_read_A ex_read_B)

lemma ex_main_union:
  "main ex_env ex_float remdups (ex_args\<lparr>args_metriclist := []\<rparr>) Map.empty =
     (Inr (), [''compareFile.csv'' \<mapsto>
        [[PStr ''Metric'', PStr ''A'', PStr ''B''],
         [PStr ''metric_CPI'', PNum 1.5, PNum 2.0],
         [PStr ''metric_TMA_Frontend'', PStr ''NA'', PNum 0.3]]])"
proof -
  have f: "args_files (ex_args\<lparr>args_metriclist := []\<rparr>) = Some ''A,B''" by (simp add: ex_args_sel)
  have ne: "''A,B'' \<noteq> []" by simp
  have l: "load ex_env ex_float (args_perfspect (ex_args\<lparr>args_metriclist := []\<rparr>)) (split CHR '','' ''A,B'') []
      [PStr ''Metric''] = Inr ([ex_A, ex_B], [PStr ''Metric'', PStr ''A'', PStr ''B''])"
    using ex_load by simp
  show ?thesis
    by (simp add: main_loaded[OF f ne l] ex_args_sel compare_metrics_all_valid[OF ex_out]
        allkeys_def dict_keys_def rowlines_def dict_getitem_def ex_A_def ex_B_def)
qed

lemma ex_main_predefined:
  "main ex_env ex_float remdups (ex_args\<lparr>args_metriclist := [''d'']\<rparr>) Map.empty =
     (Inr (), [''compareFile.csv'' \<mapsto>
        [[PStr ''Metric'', PStr ''A'', PStr ''B''],
         [PStr ''metric_CPI'', PNum 1.5, PNum 2.0]]])"
proof -
  have f: "args_files (ex_args\<lparr>args_metriclist := [''d'']\<rparr>) = Some ''A,B''" by (simp add: ex_args_sel)
  have ne: "''A,B'' \<noteq> []" by simp
  have l: "load ex_env ex_float (args_perfspect (ex_args\<lparr>args_metriclist := [''d'']\<rparr>)) (split CHR '','' ''A,B'') []
      [PStr ''Metric''] = Inr ([ex_A, ex_B], [PStr ''Metric'', PStr ''A'', PStr ''B''])"
    using ex_load by simp
  have p: "predefined_metrics [ex_A, ex_B] = Inr [PStr ''metric_CPI'']"
    by (simp add: predefined_metrics_def dict_keys_def ex_A_def well_known_def)
  have m: "main ex_env ex_float remdups (ex_args\<lparr>args_metriclist := [''d'']\<rparr>) Map.empty =
      compare_metrics [] [ex_A, ex_B] [PStr ''Metric'', PStr ''A'', PStr ''B'']
        ''compareFile.csv'' Map.empty"
    by (simp add: main_loaded[OF f ne l] ex_args_sel)
  have c: "compare_metrics [] [ex_A, ex_B] [PStr ''Metric'', PStr ''A'', PStr ''B'']
        ''compareFile.csv'' Map.empty =
      (Inr (), [''compareFile.csv'' \<mapsto> [PStr ''Metric'', PStr ''A'', PStr ''B''] #
         map (rowlines [ex_A, ex_B]) [PStr ''metric_CPI'']])"
    using compare_metrics_valid[OF ex_out, of "[]" "[ex_A, ex_B]" "[PStr ''metric_CPI'']"] p
    by simp
  show ?thesis unfolding m c
    by (simp add: rowlines_def dict_getitem_def ex_A_def ex_B_def)
qed

text \<open>
  The file \<^verbatim>\<open>H\<close>, whose header has no column \<^verbatim>\<open>metrics\<close> and which has no data row:
  the run reaches the end of \<^verbatim>\<open>main\<close> with exit status 0 and a written table.
\<close>

lemma ex_header_only_run:
  "''metrics'' \<notin> set (hd (csv_reader ex_env ''H'')) \<and>
   main ex_env ex_float remdups
       (ex_args\<lparr>args_files := Some ''H'', args_metriclist := []\<rparr>) Map.empty =
     (Inr (), [''compareFile.csv'' \<mapsto> [[PStr ''Metric'', PStr ''H'']]]) \<and>
   exit_status (fst (main ex_env ex_float remdups
       (ex_args\<lparr>args_files := Some ''H'', args_metriclist := []\<rparr>) Map.empty)) = 0"
proof -
  let ?args = "ex_args\<lparr>args_files := Some ''H'', args_metriclist := []\<rparr>"
  have h: "''metrics'' \<notin> set (hd (csv_reader ex_env ''H''))"
    by (simp add: ex_env_def ex_csv_def)
  have f: "args_files ?args = Some ''H''" by simp
  have n: "''H'' \<noteq> []" by simp
  have l: "load ex_env ex_float (args_perfspect ?args) (split CHR '','' ''H'') [] [PStr ''Metric'']
             = Inr ([[]], [PStr ''Metric'', PStr ''H''])"
    by (simp add: ex_args_sel ex_read_H)
  have m: "main ex_env ex_float remdups ?args Map.empty =
     (Inr (), [''compareFile.csv'' \<mapsto> [[PStr ''Metric'', PStr ''H'']]])"
    by (simp add: main_loaded[OF f n l] ex_args_sel compare_metrics_all_valid[OF ex_out]
        allkeys_def dict_keys_def)
  from h m show ?thesis by simp
qed

text \<open>The sibling failures on the example inputs.\<close>

lemma sibling_failures_examples:
  "args_files (ex_args\<lparr>args_files := None\<rparr>) = None \<and>
   fatal (main ex_env ex_float remdups (ex_args\<lparr>args_files := None\<rparr>) Map.empty) Map.empty
     (SystemError ''-f or --files is a required flag'') \<and>
   loads_until ex_env ex_float (ex_args\<lparr>args_files := Some ''A,U''\<rparr>) [''A''] ''U'' [] \<and>
   \<not> access_ok ex_env ''U'' \<and>
   fatal (main ex_env ex_float remdups (ex_args\<lparr>args_files := Some ''A,U''\<rparr>) Map.empty)
     Map.empty (SystemExit (Some ''U not accessible'')) \<and>
   loads_until ex_env ex_float (ex_args\<lparr>args_files := Some ''A'', args_perfspect := False\<rparr>)
     [] ''A'' [] \<and>
   access_ok ex_env ''A'' \<and>
   open_workbook ex_env ''A'' = Inl ''Unsupported format, or corrupt file'' \<and>
   fatal (main ex_env ex_float remdups
            (ex_args\<lparr>args_files := Some ''A'', args_perfspect := False\<rparr>) Map.empty)
     Map.empty (XLRDError_exit ''Unsupported format, or corrupt file'') \<and>
   loads_until ex_env ex_float (ex_args\<lparr>args_files := Some ''N''\<rparr>) [] ''N'' [] \<and>
   DictReader (csv_reader ex_env ''N'') =
     [] @ [(''metrics'', Some ''metric_CPI''), (''avg'', Some ''fast'')] # [] \<and>
   ex_float ''fast'' = None \<and>
   fatal (main ex_env ex_float remdups (ex_args\<lparr>args_files := Some ''N''\<rparr>) Map.empty)
     Map.empty ValueError \<and>
   \<not> endswith ''result.txt'' ''.csv'' \<and>
   fatal (main ex_env ex_float remdups (ex_args\<lparr>args_output := ''result.txt''\<rparr>) Map.empty)
     Map.empty (SystemError ''result.txt isn't a csv format!'')"
proof -
  note fc = sibling_failures_fatal[where env = ex_env and pyfloat = ex_float and list_of_set = remdups
      and fs = Map.empty]
  have acc: "access_ok ex_env ''A''" "access_ok ex_env ''N''" "access_ok ex_env ''M''"
    "\<not> access_ok ex_env ''U''"
    by (simp_all add: ex_env_def)
  \<comment> \<open>the files flag is missing\<close>
  have f0: "args_files (ex_args\<lparr>args_files := None\<rparr>) = None" by simp
  have w0: "fatal (main ex_env ex_float remdups (ex_args\<lparr>args_files := None\<rparr>) Map.empty)
      Map.empty (SystemError ''-f or --files is a required flag'')"
    using fc[where args = "ex_args\<lparr>args_files := None\<rparr>", THEN conjunct1] f0 by blast
  \<comment> \<open>the second file is unreadable\<close>
  have lU: "loads_until ex_env ex_float (ex_args\<lparr>args_files := Some ''A,U''\<rparr>) [''A''] ''U'' []"
    by (simp add: loads_until_def ex_args_sel ex_read_A)
  have wU: "fatal (main ex_env ex_float remdups (ex_args\<lparr>args_files := Some ''A,U''\<rparr>) Map.empty)
      Map.empty (SystemExit (Some ''U not accessible''))"
    using fc[where args = "ex_args\<lparr>args_files := Some ''A,U''\<rparr>" and pre = "[''A'']"
        and filename = "''U''" and post = "[]", THEN conjunct2, THEN conjunct1] lU acc(4)
    by simp
  \<comment> \<open>a file that is no workbook, read in spreadsheet mode\<close>
  let ?argsX = "ex_args\<lparr>args_files := Some ''A'', args_perfspect := False\<rparr>"
  have lX: "loads_until ex_env ex_float ?argsX [] ''A'' []"
    by (simp add: loads_until_def)
  have oX: "open_workbook ex_env ''A'' = Inl ''Unsupported format, or corrupt file''"
    by (simp add: ex_env_def)
  have pX: "\<not> args_perfspect ?argsX" by simp
  have wX: "fatal (main ex_env ex_float remdups ?argsX Map.empty)
      Map.empty (XLRDError_exit ''Unsupported format, or corrupt file'')"
    using fc[where args = ?argsX and pre = "[]" and filename = "''A''" and post = "[]"
        and msg = "''Unsupported format, or corrupt file''",
        THEN conjunct2, THEN conjunct2, THEN conjunct1] lX acc(1) pX oX
    by blast
  \<comment> \<open>an avg that is no number\<close>
  let ?argsN = "ex_args\<lparr>args_files := Some ''N''\<rparr>"
  have lN: "loads_until ex_env ex_float ?argsN [] ''N'' []"
    by (simp add: loads_until_def)
  have pN: "args_perfspect ?argsN" by (simp add: ex_args_sel)
  have rN: "DictReader (csv_reader ex_env ''N'') =
     [] @ [(''metrics'', Some ''metric_CPI''), (''avg'', Some ''fast'')] # []"
    by (simp add: ex_env_def ex_csv_def DictReader_row_def dict_of_def)
  have gN: "dict_getitem [(''metrics'', Some ''metric_CPI''), (''avg'', Some ''fast'')] ''metrics''
      = Some (Some ''metric_CPI'')"
    "dict_getitem [(''metrics'', Some ''metric_CPI''), (''avg'', Some ''fast'')] ''avg''
      = Some (Some ''fast'')"
    by (simp_all add: dict_getitem_def)
  have xN: "ex_float ''fast'' = None" by (simp add: ex_float_def)
  have eN: "csv2json_rows ex_float [] [] = Inr []" by simp
  have wN: "fatal (main ex_env ex_float remdups ?argsN Map.empty) Map.empty ValueError"
    using fc[where args = ?argsN and pre = "[]" and filename = "''N''" and post = "[]"
        and rs = "[]" and r = "[(''metrics'', Some ''metric_CPI''), (''avg'', Some ''fast'')]"
        and rs' = "[]" and d = "[]" and key = "Some ''metric_CPI''" and a = "''fast''",
        THEN conjunct2, THEN conjunct2, THEN conjunct2, THEN conjunct1]
      lN acc(2) pN rN gN xN eN
    by blast
  \<comment> \<open>a destination that is no \<^verbatim>\<open>.csv\<close>\<close>
  let ?argsO = "ex_args\<lparr>args_output := ''result.txt''\<rparr>"
  have nO: "\<not> endswith ''result.txt'' ''.csv''" by (simp add: endswith_def)
  have fO: "args_files ?argsO = Some ''A,B''" "''A,B'' \<noteq> []"
    "args_metriclist ?argsO \<noteq> [''d'']" "\<not> endswith (args_output ?argsO) ''.csv''"
    by (simp_all add: ex_args_sel endswith_def)
  have ldO: "load ex_env ex_float (args_perfspect ?argsO) (split CHR '','' ''A,B'') []
      [PStr ''Metric''] = Inr ([ex_A, ex_B], [PStr ''Metric'', PStr ''A'', PStr ''B''])"
    using ex_load by simp
  have wO: "fatal (main ex_env ex_float remdups ?argsO Map.empty)
      Map.empty (SystemError (args_output ?argsO @ '' isn't a csv format!''))"
    using fc[where args = ?argsO and files = "''A,B''" and jsondata = "[ex_A, ex_B]"
        and fields' = "[PStr ''Metric'', PStr ''A'', PStr ''B'']",
        THEN conjunct2, THEN conjunct2, THEN conjunct2, THEN conjunct2]
      fO ldO
    by blast
  then have wO': "fatal (main ex_env ex_float remdups ?argsO Map.empty)
      Map.empty (SystemError ''result.txt isn't a csv format!'')"
    by simp
  show ?thesis
    by (intro conjI) (rule f0 w0 lU acc wU lX oX wX lN rN xN wN nO wO')+
qed

section \<open>The claims\<close>

text \<open>
  C1. For valid inputs (the files flag names files that all load, the destination ends
  with \<^verbatim>\<open>.csv\<close>, and in predefined mode the keys of the first file are text) the run
  reaches the end of \<^verbatim>\<open>main\<close> and writes one table: the header row and one data row
  per selected metric, in the order of the selected list (the metric is the first cell
  of its row), and every row, header and data, has exactly \<open>1 + N\<close> cells, where \<open>N\<close> is
  the number of input files. This holds in union, predefined and explicit mode.
\<close>

theorem valid_run_table:
  assumes "args_files args = Some files" and "files \<noteq> []"
    and "map (read_file env pyfloat (args_perfspect args)) (split CHR '','' files)
           = map Inr jsondata"
    and "endswith (args_output args) ''.csv''"
    and "args_metriclist args = [''d''] \<longrightarrow> (\<exists>names. dict_keys (hd jsondata) = map PStr names)"
  shows "\<exists>selected rows.
           (if args_metriclist args = [] then selected = list_of_set (allkeys jsondata)
            else if args_metriclist args = [''d'']
              then predefined_metrics jsondata = Inr selected
            else selected = map PStr (args_metriclist args)) \<and>
           main env pyfloat list_of_set args fs =
             (Inr (), fs(args_output args \<mapsto>
                (PStr ''Metric'' # map PStr (split CHR '','' files)) # rows)) \<and>
           rows = map (rowlines jsondata) selected \<and>
           length jsondata = length (split CHR '','' files) \<and>
           length rows = length selected \<and>
           map hd rows = selected \<and>
           (\<forall>r\<in>set ((PStr ''Metric'' # map PStr (split CHR '','' files)) # rows).
              length r = 1 + length (split CHR '','' files))"
proof -
  let ?fns = "split CHR '','' files"
  let ?header = "PStr ''Metric'' # map PStr ?fns"
  have n: "length jsondata = length ?fns"
    using arg_cong[OF assms(3), of length] by simp
  have l: "load env pyfloat (args_perfspect args) ?fns [] [PStr ''Metric'']
             = Inr (jsondata, ?header)"
    using load_total[OF assms(3), of "[]" "[PStr ''Metric'']"] by simp
  note m = main_loaded[OF assms(1,2) l]
  have shape: "length (map (rowlines jsondata) selected) = length selected \<and>
      map hd (map (rowlines jsondata) selected) = selected \<and>
      (\<forall>r\<in>set (?header # map (rowlines jsondata) selected). length r = 1 + length ?fns)"
    for selected
    using n hd_rowlines[of jsondata selected] by (auto simp: length_rowlines)
  have fin: ?thesis
    if sel: "if args_metriclist args = [] then selected = list_of_set (allkeys jsondata)
            else if args_metriclist args = [''d'']
              then predefined_metrics jsondata = Inr selected
            else selected = map PStr (args_metriclist args)"
      and run: "main env pyfloat list_of_set args fs =
        (Inr (), fs(args_output args \<mapsto> ?header # map (rowlines jsondata) selected))"
    for selected
  proof (intro exI[of _ selected] exI[of _ "map (rowlines jsondata) selected"] conjI)
    show "if args_metriclist args = [] then selected = list_of_set (allkeys jsondata)
            else if args_metriclist args = [''d'']
              then predefined_metrics jsondata = Inr selected
            else selected = map PStr (args_metriclist args)" by (rule sel)
    show "main env pyfloat list_of_set args fs =
        (Inr (), fs(args_output args \<mapsto> ?header # map (rowlines jsondata) selected))"
      by (rule run)
    show "map (rowlines jsondata) selected = map (rowlines jsondata) selected" by (rule refl)
    show "length jsondata = length ?fns" by (rule n)
    show "length (map (rowlines jsondata) selected) = length selected"
      using shape[of selected] by blast
    show "map hd (map (rowlines jsondata) selected) = selected"
      using shape[of selected] by blast
    show "\<forall>r\<in>set (?header # map (rowlines jsondata) selected). length r = 1 + length ?fns"
      using shape[of selected] by blast
  qed
  show ?thesis
  proof (cases "args_metriclist args = []")
    case True
    then have "main env pyfloat list_of_set args fs =
        (Inr (), fs(args_output args \<mapsto>
           ?header # map (rowlines jsondata) (list_of_set (allkeys jsondata))))"
      by (simp add: m compare_metrics_all_valid[OF assms(4)])
    with True show ?thesis by (intro fin[of "list_of_set (allkeys jsondata)"]) simp_all
  next
    case False
    show ?thesis
    proof (cases "args_metriclist args = [''d'']")
      case True
      with assms(5) obtain names where k: "dict_keys (hd jsondata) = map PStr names" by blast
      from n split_nonempty[of "CHR '',''" files] obtain first rest
        where j: "jsondata = first # rest" by (cases jsondata) auto
      let ?sel = "map PStr (filter (\<lambda>s. startswith s ''metric_TMA'' \<or> s \<in> set well_known) names)"
      from k j have p: "predefined_metrics jsondata = Inr ?sel"
        by (simp add: predefined_metrics_def predefined_filter_strings)
      from True have "main env pyfloat list_of_set args fs =
          (Inr (), fs(args_output args \<mapsto> ?header # map (rowlines jsondata) ?sel))"
        using compare_metrics_valid[OF assms(4), of "[]" jsondata ?sel] p by (simp add: m)
      with True p show ?thesis by (intro fin[of ?sel]) simp_all
    next
      case d: False
      with False have "main env pyfloat list_of_set args fs =
          (Inr (), fs(args_output args \<mapsto>
             ?header # map (rowlines jsondata) (map PStr (args_metriclist args))))"
        using compare_metrics_valid[OF assms(4), of "map PStr (args_metriclist args)" jsondata
            "map PStr (args_metriclist args)"]
        by (simp add: m)
      with False d show ?thesis by (intro fin[of "map PStr (args_metriclist args)"]) simp_all
    qed
  qed
qed

theorem valid_run_table_witness:
  "map (read_file ex_env ex_float True) (split CHR '','' ''A,B'') = map Inr [ex_A, ex_B] \<and>
   endswith ''compareFile.csv'' ''.csv'' \<and>
   dict_keys (hd [ex_A, ex_B]) = map PStr [''metric_CPI''] \<and>
   main ex_env ex_float remdups (ex_args) Map.empty =
     (Inr (), [''compareFile.csv'' \<mapsto>
        [[PStr ''Metric'', PStr ''A'', PStr ''B''],
         [PStr ''metric_CPI'', PNum 1.5, PNum 2.0],
         [PStr ''metric_TMA_Frontend'', PStr ''NA'', PNum 0.3]]]) \<and>
   main ex_env ex_float remdups (ex_args\<lparr>args_metriclist := []\<rparr>) Map.empty =
     (Inr (), [''compareFile.csv'' \<mapsto>
        [[PStr ''Metric'', PStr ''A'', PStr ''B''],
         [PStr ''metric_CPI'', PNum 1.5, PNum 2.0],
         [PStr ''metric_TMA_Frontend'', PStr ''NA'', PNum 0.3]]]) \<and>
   main ex_env ex_float remdups (ex_args\<lparr>args_metriclist := [''d'']\<rparr>) Map.empty =
     (Inr (), [''compareFile.csv'' \<mapsto>
        [[PStr ''Metric'', PStr ''A'', PStr ''B''],
         [PStr ''metric_CPI'', PNum 1.5, PNum 2.0]]]) \<and>
   (\<exists>selected rows.
      (if args_metriclist (ex_args) = [] then selected = remdups (allkeys [ex_A, ex_B])
       else if args_metriclist (ex_args) = [''d'']
         then predefined_metrics [ex_A, ex_B] = Inr selected
       else selected = map PStr (args_metriclist (ex_args))) \<and>
      main ex_env ex_float remdups (ex_args) Map.empty =
        (Inr (), Map.empty(args_output (ex_args) \<mapsto>
           (PStr ''Metric'' # map PStr (split CHR '','' ''A,B'')) # rows)) \<and>
      rows = map (rowlines [ex_A, ex_B]) selected \<and>
      length [ex_A, ex_B] = length (split CHR '','' ''A,B'') \<and>
      length rows = length selected \<and>
      map hd rows = selected \<and>
      (\<forall>r\<in>set ((PStr ''Metric'' # map PStr (split CHR '','' ''A,B'')) # rows).
         length r = 1 + length (split CHR '','' ''A,B''))) \<and>
   (\<exists>selected rows.
      (if args_metriclist (ex_args\<lparr>args_metriclist := []\<rparr>) = [] then selected = remdups (allkeys [ex_A, ex_B])
       else if args_metriclist (ex_args\<lparr>args_metriclist := []\<rparr>) = [''d'']
         then predefined_metrics [ex_A, ex_B] = Inr selected
       else selected = map PStr (args_metriclist (ex_args\<lparr>args_metriclist := []\<rparr>))) \<and>
      main ex_env ex_float remdups (ex_args\<lparr>args_metriclist := []\<rparr>) Map.empty =
        (Inr (), Map.empty(args_output (ex_args\<lparr>args_metriclist := []\<rparr>) \<mapsto>
           (PStr ''Metric'' # map PStr (split CHR '','' ''A,B'')) # rows)) \<and>
      rows = map (rowlines [ex_A, ex_B]) selected \<and>
      length [ex_A, ex_B] = length (split CHR '','' ''A,B'') \<and>
      length rows = length selected \<and>
      map hd rows = selected \<and>
      (\<forall>r\<in>set ((PStr ''Metric'' # map PStr (split CHR '','' ''A,B'')) # rows).
         length r = 1 + length (split CHR '','' ''A,B''))) \<and>
   (\<exists>selected rows.
      (if args_metriclist (ex_args\<lparr>args_metriclist := [''d'']\<rparr>) = [] then selected = remdups (allkeys [ex_A, ex_B])
       else if args_metriclist (ex_args\<lparr>args_metriclist := [''d'']\<rparr>) = [''d'']
         then predefined_metrics [ex_A, ex_B] = Inr selected
       else selected = map PStr (args_metriclist (ex_args\<lparr>args_metriclist := [''d'']\<rparr>))) \<and>
      main ex_env ex_float remdups (ex_args\<lparr>args_metriclist := [''d'']\<rparr>) Map.empty =
        (Inr (), Map.empty(args_output (ex_args\<lparr>args_metriclist := [''d'']\<rparr>) \<mapsto>
           (PStr ''Metric'' # map PStr (split CHR '','' ''A,B'')) # rows)) \<and>
      rows = map (rowlines [ex_A, ex_B]) selected \<and>
      length [ex_A, ex_B] = length (split CHR '','' ''A,B'') \<and>
      length rows = length selected \<and>
      map hd rows = selected \<and>
      (\<forall>r\<in>set ((PStr ''Metric'' # map PStr (split CHR '','' ''A,B'')) # rows).
         length r = 1 + length (split CHR '','' ''A,B'')))"
proof -
  have k: "dict_keys (hd [ex_A, ex_B]) = map PStr [''metric_CPI'']"
    by (simp add: dict_keys_def ex_A_def)
  have ne: "''A,B'' \<noteq> []" by simp
  have wE: "(\<exists>selected rows.
      (if args_metriclist (ex_args) = [] then selected = remdups (allkeys [ex_A, ex_B])
       else if args_metriclist (ex_args) = [''d'']
         then predefined_metrics [ex_A, ex_B] = Inr selected
       else selected = map PStr (args_metriclist (ex_args))) \<and>
      main ex_env ex_float remdups (ex_args) Map.empty =
        (Inr (), Map.empty(args_output (ex_args) \<mapsto>
           (PStr ''Metric'' # map PStr (split CHR '','' ''A,B'')) # rows)) \<and>
      rows = map (rowlines [ex_A, ex_B]) selected \<and>
      length [ex_A, ex_B] = length (split CHR '','' ''A,B'') \<and>
      length rows = length selected \<and>
      map hd rows = selected \<and>
      (\<forall>r\<in>set ((PStr ''Metric'' # map PStr (split CHR '','' ''A,B'')) # rows).
         length r = 1 + length (split CHR '','' ''A,B'')))"
  proof (rule valid_run_table[where files = "''A,B''" and jsondata = "[ex_A, ex_B]"])
    show "args_files (ex_args) = Some ''A,B''" by (simp add: ex_args_sel)
    show "''A,B'' \<noteq> []" by simp
    show "map (read_file ex_env ex_float (args_perfspect (ex_args))) (split CHR '','' ''A,B'')
        = map Inr [ex_A, ex_B]" using ex_reads by (simp add: ex_args_sel)
    show "endswith (args_output (ex_args)) ''.csv''" by (simp add: ex_args_sel ex_out)
    show "args_metriclist (ex_args) = [''d''] \<longrightarrow>
        (\<exists>names. dict_keys (hd [ex_A, ex_B]) = map PStr names)" using k by blast
  qed
  have wU: "(\<exists>selected rows.
      (if args_metriclist (ex_args\<lparr>args_metriclist := []\<rparr>) = [] then selected = remdups (allkeys [ex_A, ex_B])
       else if args_metriclist (ex_args\<lparr>args_metriclist := []\<rparr>) = [''d'']
         then predefined_metrics [ex_A, ex_B] = Inr selected
       else selected = map PStr (args_metriclist (ex_args\<lparr>args_metriclist := []\<rparr>))) \<and>
      main ex_env ex_float remdups (ex_args\<lparr>args_metriclist := []\<rparr>) Map.empty =
        (Inr (), Map.empty(args_output (ex_args\<lparr>args_metriclist := []\<rparr>) \<mapsto>
           (PStr ''Metric'' # map PStr (split CHR '','' ''A,B'')) # rows)) \<and>
      rows = map (rowlines [ex_A, ex_B]) selected \<and>
      length [ex_A, ex_B] = length (split CHR '','' ''A,B'') \<and>
      length rows = length selected \<and>
      map hd rows = selected \<and>
      (\<forall>r\<in>set ((PStr ''Metric'' # map PStr (split CHR '','' ''A,B'')) # rows).
         length r = 1 + length (split CHR '','' ''A,B'')))"
  proof (rule valid_run_table[where files = "''A,B''" and jsondata = "[ex_A, ex_B]"])
    show "args_files (ex_args\<lparr>args_metriclist := []\<rparr>) = Some ''A,B''" by (simp add: ex_args_sel)
    show "''A,B'' \<noteq> []" by simp
    show "map (read_file ex_env ex_float (args_perfspect (ex_args\<lparr>args_metriclist := []\<rparr>))) (split CHR '','' ''A,B'')
        = map Inr [ex_A, ex_B]" using ex_reads by (simp add: ex_args_sel)
    show "endswith (args_output (ex_args\<lparr>args_metriclist := []\<rparr>)) ''.csv''" by (simp add: ex_args_sel ex_out)
    show "args_metriclist (ex_args\<lparr>args_metriclist := []\<rparr>) = [''d''] \<longrightarrow>
        (\<exists>names. dict_keys (hd [ex_A, ex_B]) = map PStr names)" using k by blast
  qed
  have wP: "(\<exists>selected rows.
      (if args_metriclist (ex_args\<lparr>args_metriclist := [''d'']\<rparr>) = [] then selected = remdups (allkeys [ex_A, ex_B])
       else if args_metriclist (ex_args\<lparr>args_metriclist := [''d'']\<rparr>) = [''d'']
         then predefined_metrics [ex_A, ex_B] = Inr selected
       else selected = map PStr (args_metriclist (ex_args\<lparr>args_metriclist := [''d'']\<rparr>))) \<and>
      main ex_env ex_float remdups (ex_args\<lparr>args_metriclist := [''d'']\<rparr>) Map.empty =
        (Inr (), Map.empty(args_output (ex_args\<lparr>args_metriclist := [''d'']\<rparr>) \<mapsto>
           (PStr ''Metric'' # map PStr (split CHR '','' ''A,B'')) # rows)) \<and>
      rows = map (rowlines [ex_A, ex_B]) selected \<and>
      length [ex_A, ex_B] = length (split CHR '','' ''A,B'') \<and>
      length rows = length selected \<and>
      map hd rows = selected \<and>
      (\<forall>r\<in>set ((PStr ''Metric'' # map PStr (split CHR '','' ''A,B'')) # rows).
         length r = 1 + length (split CHR '','' ''A,B'')))"
  proof (rule valid_run_table[where files = "''A,B''" and jsondata = "[ex_A, ex_B]"])
    show "args_files (ex_args\<lparr>args_metriclist := [''d'']\<rparr>) = Some ''A,B''" by (simp add: ex_args_sel)
    show "''A,B'' \<noteq> []" by simp
    show "map (read_file ex_env ex_float (args_perfspect (ex_args\<lparr>args_metriclist := [''d'']\<rparr>))) (split CHR '','' ''A,B'')
        = map Inr [ex_A, ex_B]" using ex_reads by (simp add: ex_args_sel)
    show "endswith (args_output (ex_args\<lparr>args_metriclist := [''d'']\<rparr>)) ''.csv''" by (simp add: ex_args_sel ex_out)
    show "args_metriclist (ex_args\<lparr>args_metriclist := [''d'']\<rparr>) = [''d''] \<longrightarrow>
        (\<exists>names. dict_keys (hd [ex_A, ex_B]) = map PStr names)" using k by blast
  qed
  show ?thesis
    by (intro conjI) (rule ex_reads ex_out k ex_main ex_main_union ex_main_predefined wE wU wP)+
qed

text \<open>
  C2. In predefined mode (\<^verbatim>\<open>compare_metrics\<close> called with an empty metric list) the
  selected metrics are the keys of the first dataset that start with \<^verbatim>\<open>metric_TMA\<close> or
  are one of the four well-known names, in the key order of the first dataset. The
  selection is the same for any two dataset lists with the same first dataset.
\<close>

theorem predefined_selection:
  assumes "dict_keys first = map PStr names"
  shows "predefined_metrics (first # rest) =
           Inr (map PStr (filter (\<lambda>s. startswith s ''metric_TMA'' \<or> s \<in> set well_known) names)) \<and>
         predefined_metrics (first # rest') = predefined_metrics (first # rest) \<and>
         (endswith out ''.csv'' \<longrightarrow>
            compare_metrics [] (first # rest) fields' out fs =
              (Inr (), fs(out \<mapsto> fields' # map (rowlines (first # rest))
                 (map PStr (filter (\<lambda>s. startswith s ''metric_TMA'' \<or> s \<in> set well_known) names)))))"
proof -
  let ?sel = "map PStr (filter (\<lambda>s. startswith s ''metric_TMA'' \<or> s \<in> set well_known) names)"
  have p: "predefined_metrics (first # rest) = Inr ?sel"
    using assms by (simp add: predefined_metrics_def predefined_filter_strings)
  have q: "predefined_metrics (first # rest') = predefined_metrics (first # rest)"
    by (simp add: predefined_metrics_def)
  have "compare_metrics [] (first # rest) fields' out fs =
          (Inr (), fs(out \<mapsto> fields' # map (rowlines (first # rest)) ?sel))"
    if "endswith out ''.csv''"
    using compare_metrics_valid[OF that, of "[]" "first # rest" ?sel] p by simp
  with p q show ?thesis by blast
qed

theorem predefined_selection_witness:
  "dict_keys ex_first =
     map PStr [''metric_CPI'', ''metric_package power (watts)'', ''metric_TMA_Backend''] \<and>
   endswith ''compareFile.csv'' ''.csv'' \<and>
   predefined_metrics [ex_first, ex_B] =
     Inr [PStr ''metric_CPI'', PStr ''metric_TMA_Backend''] \<and>
   predefined_metrics [ex_first, ex_A] = predefined_metrics [ex_first, ex_B] \<and>
   compare_metrics [] [ex_first, ex_B] [PStr ''Metric'', PStr ''A'', PStr ''B'']
       ''compareFile.csv'' Map.empty =
     (Inr (), [''compareFile.csv'' \<mapsto>
        [[PStr ''Metric'', PStr ''A'', PStr ''B''],
         [PStr ''metric_CPI'', PNum 1.5, PNum 2.0],
         [PStr ''metric_TMA_Backend'', PNum 0.3, PStr ''NA'']]])"
proof -
  have k: "dict_keys ex_first =
     map PStr [''metric_CPI'', ''metric_package power (watts)'', ''metric_TMA_Backend'']"
    by (simp add: dict_keys_def ex_first_def)
  have f: "filter (\<lambda>s. startswith s ''metric_TMA'' \<or> s \<in> set well_known)
             [''metric_CPI'', ''metric_package power (watts)'', ''metric_TMA_Backend'']
           = [''metric_CPI'', ''metric_TMA_Backend'']"
    by (simp add: well_known_def)
  have r: "map (rowlines [ex_first, ex_B]) (map PStr [''metric_CPI'', ''metric_TMA_Backend'']) =
        [[PStr ''metric_CPI'', PNum 1.5, PNum 2.0],
         [PStr ''metric_TMA_Backend'', PNum 0.3, PStr ''NA'']]"
    by (simp add: rowlines_def dict_getitem_def ex_first_def ex_B_def)
  show ?thesis
    using predefined_selection[OF k, of "[ex_B]" "[ex_A]" "''compareFile.csv''"
        "[PStr ''Metric'', PStr ''A'', PStr ''B'']" Map.empty] k ex_out
    unfolding f r by simp
qed

text \<open>
  C3. In union mode (\<^verbatim>\<open>compare_metrics_all\<close>), when \<^verbatim>\<open>list(set(allkeys))\<close> lists each
  distinct key once, every metric that is a key of at least one dataset is the name of
  exactly one data row, and every row name is a key of some dataset. Nothing is said
  about the order of the rows.
\<close>

theorem union_rows:
  assumes "distinct (list_of_set (allkeys datalist))"
    and "set (list_of_set (allkeys datalist)) = set (allkeys datalist)"
    and "compare_metrics_all list_of_set datalist fields' out fs = (Inr (), fs')"
  shows "\<exists>rows. fs' out = Some (fields' # rows) \<and>
           distinct (map hd rows) \<and>
           set (map hd rows) = {m. \<exists>data\<in>set datalist. dict_getitem data m \<noteq> None}"
proof -
  let ?rows = "map (rowlines datalist) (list_of_set (allkeys datalist))"
  from compare_metrics_all_Inr[OF assms(3)] have w: "fs' out = Some (fields' # ?rows)"
    by simp
  have h: "map hd ?rows = list_of_set (allkeys datalist)"
    by (rule hd_rowlines)
  have k: "set (allkeys datalist) = {m. \<exists>data\<in>set datalist. dict_getitem data m \<noteq> None}"
    by (auto simp: allkeys_def dict_getitem_None_iff)
  show ?thesis
  proof (intro exI conjI)
    show "fs' out = Some (fields' # ?rows)" by (rule w)
    show "distinct (map hd ?rows)" unfolding h by (rule assms(1))
    show "set (map hd ?rows) = {m. \<exists>data\<in>set datalist. dict_getitem data m \<noteq> None}"
      unfolding h assms(2) by (rule k)
  qed
qed

theorem union_rows_witness:
  "distinct (remdups (allkeys [ex_A, ex_B])) \<and>
   set (remdups (allkeys [ex_A, ex_B])) = set (allkeys [ex_A, ex_B]) \<and>
   compare_metrics_all remdups [ex_A, ex_B] [PStr ''Metric'', PStr ''A'', PStr ''B'']
       ''compareFile.csv'' Map.empty =
     (Inr (), [''compareFile.csv'' \<mapsto>
        [[PStr ''Metric'', PStr ''A'', PStr ''B''],
         [PStr ''metric_CPI'', PNum 1.5, PNum 2.0],
         [PStr ''metric_TMA_Frontend'', PStr ''NA'', PNum 0.3]]]) \<and>
   (\<exists>rows. [''compareFile.csv'' \<mapsto>
        [[PStr ''Metric'', PStr ''A'', PStr ''B''],
         [PStr ''metric_CPI'', PNum 1.5, PNum 2.0],
         [PStr ''metric_TMA_Frontend'', PStr ''NA'', PNum (0.3::real)]]] ''compareFile.csv''
          = Some ([PStr ''Metric'', PStr ''A'', PStr ''B''] # rows) \<and>
      distinct (map hd rows) \<and>
      set (map hd rows) = {m. \<exists>data\<in>set [ex_A, ex_B]. dict_getitem data m \<noteq> None})"
proof -
  have d: "distinct (remdups (allkeys [ex_A, ex_B]))" by simp
  have s: "set (remdups (allkeys [ex_A, ex_B])) = set (allkeys [ex_A, ex_B])" by simp
  have r: "compare_metrics_all remdups [ex_A, ex_B] [PStr ''Metric'', PStr ''A'', PStr ''B'']
       ''compareFile.csv'' Map.empty =
     (Inr (), [''compareFile.csv'' \<mapsto>
        [[PStr ''Metric'', PStr ''A'', PStr ''B''],
         [PStr ''metric_CPI'', PNum 1.5, PNum 2.0],
         [PStr ''metric_TMA_Frontend'', PStr ''NA'', PNum 0.3]]])"
    by (simp add: compare_metrics_all_valid[OF ex_out] allkeys_def dict_keys_def rowlines_def
        dict_getitem_def ex_A_def ex_B_def)
  from d s r union_rows[OF d s r] show ?thesis by blast
qed

text \<open>
  C4. In explicit mode (a non-empty metric list) the data rows are the rows of the
  caller's list, verbatim and in the caller's order; a name that is a key of no dataset
  gets the row of the name followed by \<^verbatim>\<open>"NA"\<close> in every data column. From the command
  line this is the mode of every non-empty list other than the single token \<^verbatim>\<open>d\<close>.
\<close>

theorem explicit_rows:
  assumes "metriclist \<noteq> []" and "endswith out ''.csv''"
  shows "compare_metrics metriclist datalist fields' out fs =
           (Inr (), fs(out \<mapsto> fields' # map (rowlines datalist) metriclist)) \<and>
         map hd (map (rowlines datalist) metriclist) = metriclist \<and>
         (\<forall>m\<in>set metriclist. (\<forall>data\<in>set datalist. dict_getitem data m = None) \<longrightarrow>
            rowlines datalist m = m # replicate (length datalist) (PStr ''NA'')) \<and>
         (args_files args = Some files \<and> files \<noteq> [] \<and>
          load env pyfloat (args_perfspect args) (split CHR '','' files) [] [PStr ''Metric'']
            = Inr (datalist, fields') \<and>
          args_metriclist args \<noteq> [''d''] \<and> map PStr (args_metriclist args) = metriclist \<and>
          args_output args = out \<longrightarrow>
          main env pyfloat list_of_set args fs =
            (Inr (), fs(out \<mapsto> fields' # map (rowlines datalist) metriclist)))"
proof -
  have c: "compare_metrics metriclist datalist fields' out fs =
           (Inr (), fs(out \<mapsto> fields' # map (rowlines datalist) metriclist))"
    using compare_metrics_valid[OF assms(2), of metriclist datalist metriclist] assms(1) by simp
  have "main env pyfloat list_of_set args fs =
            (Inr (), fs(out \<mapsto> fields' # map (rowlines datalist) metriclist))"
    if "args_files args = Some files" "files \<noteq> []"
      "load env pyfloat (args_perfspect args) (split CHR '','' files) [] [PStr ''Metric'']
            = Inr (datalist, fields')"
      "args_metriclist args \<noteq> [''d'']" "map PStr (args_metriclist args) = metriclist"
      "args_output args = out"
  proof -
    from that(5) assms(1) have "args_metriclist args \<noteq> []" by auto
    with that c show ?thesis by (simp add: main_loaded[OF that(1,2,3)])
  qed
  moreover have "map hd (map (rowlines datalist) metriclist) = metriclist"
    by (rule hd_rowlines)
  moreover have "\<forall>m\<in>set metriclist. (\<forall>data\<in>set datalist. dict_getitem data m = None) \<longrightarrow>
            rowlines datalist m = m # replicate (length datalist) (PStr ''NA'')"
    using rowlines_absent by blast
  ultimately show ?thesis using c by blast
qed

theorem explicit_rows_witness:
  "[PStr ''metric_CPI'', PStr ''metric_absent''] \<noteq> ([] :: real pyval list) \<and>
   endswith ''compareFile.csv'' ''.csv'' \<and>
   compare_metrics [PStr ''metric_CPI'', PStr ''metric_absent''] [ex_A, ex_B]
       [PStr ''Metric'', PStr ''A'', PStr ''B''] ''compareFile.csv'' Map.empty =
     (Inr (), [''compareFile.csv'' \<mapsto>
        [[PStr ''Metric'', PStr ''A'', PStr ''B''],
         [PStr ''metric_CPI'', PNum 1.5, PNum 2.0],
         [PStr ''metric_absent'', PStr ''NA'', PStr ''NA'']]]) \<and>
   dict_getitem ex_A (PStr ''metric_absent'') = None \<and>
   dict_getitem ex_B (PStr ''metric_absent'') = None \<and>
   rowlines [ex_A, ex_B] (PStr ''metric_absent'') =
     [PStr ''metric_absent'', PStr ''NA'', PStr ''NA'']"
proof -
  have n: "[PStr ''metric_CPI'', PStr ''metric_absent''] \<noteq> ([] :: real pyval list)" by simp
  have a: "\<forall>data\<in>set [ex_A, ex_B]. dict_getitem data (PStr ''metric_absent'') = None"
    by (simp add: dict_getitem_def ex_A_def ex_B_def)
  have r: "map (rowlines [ex_A, ex_B]) [PStr ''metric_CPI'', PStr ''metric_absent''] =
        [[PStr ''metric_CPI'', PNum 1.5, PNum 2.0],
         [PStr ''metric_absent'', PStr ''NA'', PStr ''NA'']]"
    by (simp add: rowlines_def dict_getitem_def ex_A_def ex_B_def)
  from explicit_rows[OF n ex_out, of "[ex_A, ex_B]" "[PStr ''Metric'', PStr ''A'', PStr ''B'']"
      Map.empty] n ex_out a
  show ?thesis unfolding r by simp
qed

text \<open>
  C5. For a destination that ends with \<^verbatim>\<open>.csv\<close>, \<^verbatim>\<open>compare_metrics\<close> and
  \<^verbatim>\<open>compare_metrics_all\<close> write a table with one data row for every selected metric,
  at the metric's position in the selected list: the row starts with the metric, and
  for every dataset index \<open>i\<close> its cell at column \<open>i + 1\<close> is the value dataset \<open>i\<close>
  stores under the metric when the metric is a key of dataset \<open>i\<close>, and the text
  \<^verbatim>\<open>"NA"\<close> otherwise. Each cell depends on its own dataset only, so the absence of a
  metric from one dataset leaves the cells of the other datasets at their stored values.
\<close>

theorem selected_metric_cells:
  assumes "endswith out ''.csv''"
  shows "((if metriclist = [] then predefined_metrics datalist = Inr selected
           else selected = metriclist) \<longrightarrow>
          (\<exists>rows.
             compare_metrics metriclist datalist fields' out fs =
               (Inr (), fs(out \<mapsto> fields' # rows)) \<and>
             length rows = length selected \<and>
             (\<forall>j<length (selected).
           rows ! j ! 0 = (selected) ! j \<and>
           (\<forall>i<length datalist.
              rows ! j ! (i + 1) =
                (case dict_getitem (datalist ! i) ((selected) ! j) of
                   Some v \<Rightarrow> v
                 | None \<Rightarrow> PStr ''NA''))))) \<and>
         (\<exists>rows.
            compare_metrics_all list_of_set datalist fields' out fs =
              (Inr (), fs(out \<mapsto> fields' # rows)) \<and>
            length rows = length (list_of_set (allkeys datalist)) \<and>
            (\<forall>j<length (list_of_set (allkeys datalist)).
           rows ! j ! 0 = (list_of_set (allkeys datalist)) ! j \<and>
           (\<forall>i<length datalist.
              rows ! j ! (i + 1) =
                (case dict_getitem (datalist ! i) ((list_of_set (allkeys datalist)) ! j) of
                   Some v \<Rightarrow> v
                 | None \<Rightarrow> PStr ''NA''))))"
proof (intro conjI impI)
  assume sel: "if metriclist = [] then predefined_metrics datalist = Inr selected
           else selected = metriclist"
  show "\<exists>rows.
             compare_metrics metriclist datalist fields' out fs =
               (Inr (), fs(out \<mapsto> fields' # rows)) \<and>
             length rows = length selected \<and>
             (\<forall>j<length (selected).
           rows ! j ! 0 = (selected) ! j \<and>
           (\<forall>i<length datalist.
              rows ! j ! (i + 1) =
                (case dict_getitem (datalist ! i) ((selected) ! j) of
                   Some v \<Rightarrow> v
                 | None \<Rightarrow> PStr ''NA'')))"
  proof (intro exI[of _ "map (rowlines datalist) selected"] conjI allI impI)
    show "compare_metrics metriclist datalist fields' out fs =
        (Inr (), fs(out \<mapsto> fields' # map (rowlines datalist) selected))"
      by (rule compare_metrics_valid[OF assms sel])
    show "length (map (rowlines datalist) selected) = length selected" by simp
  next
    fix j assume "j < length selected"
    from rowlines_cells[OF this, of datalist]
    show "map (rowlines datalist) selected ! j ! 0 = selected ! j"
      by blast
  next
    fix j i assume "j < length selected" "i < length datalist"
    with rowlines_cells[of j selected datalist]
    show "map (rowlines datalist) selected ! j ! (i + 1) =
        (case dict_getitem (datalist ! i) (selected ! j) of
           Some v \<Rightarrow> v
         | None \<Rightarrow> PStr ''NA'')"
      by blast
  qed
next
  let ?sel = "list_of_set (allkeys datalist)"
  show "\<exists>rows.
            compare_metrics_all list_of_set datalist fields' out fs =
              (Inr (), fs(out \<mapsto> fields' # rows)) \<and>
            length rows = length ?sel \<and>
            (\<forall>j<length (?sel).
           rows ! j ! 0 = (?sel) ! j \<and>
           (\<forall>i<length datalist.
              rows ! j ! (i + 1) =
                (case dict_getitem (datalist ! i) ((?sel) ! j) of
                   Some v \<Rightarrow> v
                 | None \<Rightarrow> PStr ''NA'')))"
  proof (intro exI[of _ "map (rowlines datalist) ?sel"] conjI allI impI)
    show "compare_metrics_all list_of_set datalist fields' out fs =
        (Inr (), fs(out \<mapsto> fields' # map (rowlines datalist) ?sel))"
      by (rule compare_metrics_all_valid[OF assms])
    show "length (map (rowlines datalist) ?sel) = length ?sel" by simp
  next
    fix j assume "j < length ?sel"
    from rowlines_cells[OF this, of datalist]
    show "map (rowlines datalist) ?sel ! j ! 0 = ?sel ! j"
      by blast
  next
    fix j i assume "j < length ?sel" "i < length datalist"
    with rowlines_cells[of j ?sel datalist]
    show "map (rowlines datalist) ?sel ! j ! (i + 1) =
        (case dict_getitem (datalist ! i) (?sel ! j) of
           Some v \<Rightarrow> v
         | None \<Rightarrow> PStr ''NA'')"
      by blast
  qed
qed

theorem selected_metric_cells_witness:
  "endswith ''compareFile.csv'' ''.csv'' \<and>
   compare_metrics [PStr ''metric_TMA_Frontend''] [ex_A, ex_B] [PStr ''Metric'', PStr ''A'', PStr ''B''] ''compareFile.csv'' Map.empty =
     (Inr (), [''compareFile.csv'' \<mapsto>
        [[PStr ''Metric'', PStr ''A'', PStr ''B''],
         [PStr ''metric_TMA_Frontend'', PStr ''NA'', PNum 0.3]]]) \<and>
   compare_metrics_all remdups [ex_A, ex_B] [PStr ''Metric'', PStr ''A'', PStr ''B''] ''compareFile.csv'' Map.empty =
     (Inr (), [''compareFile.csv'' \<mapsto>
        [[PStr ''Metric'', PStr ''A'', PStr ''B''],
         [PStr ''metric_CPI'', PNum 1.5, PNum 2.0],
         [PStr ''metric_TMA_Frontend'', PStr ''NA'', PNum 0.3]]]) \<and>
   (\<exists>rows.
      compare_metrics [PStr ''metric_TMA_Frontend''] [ex_A, ex_B] [PStr ''Metric'', PStr ''A'', PStr ''B''] ''compareFile.csv'' Map.empty =
        (Inr (), Map.empty(''compareFile.csv'' \<mapsto> [PStr ''Metric'', PStr ''A'', PStr ''B''] # rows)) \<and>
      length rows = length [PStr ''metric_TMA_Frontend'' :: real pyval] \<and>
      (\<forall>j<length ([PStr ''metric_TMA_Frontend'']).
           rows ! j ! 0 = ([PStr ''metric_TMA_Frontend'']) ! j \<and>
           (\<forall>i<length [ex_A, ex_B].
              rows ! j ! (i + 1) =
                (case dict_getitem ([ex_A, ex_B] ! i) (([PStr ''metric_TMA_Frontend'']) ! j) of
                   Some v \<Rightarrow> v
                 | None \<Rightarrow> PStr ''NA'')))) \<and>
   (\<exists>rows.
      compare_metrics_all remdups [ex_A, ex_B] [PStr ''Metric'', PStr ''A'', PStr ''B''] ''compareFile.csv'' Map.empty =
        (Inr (), Map.empty(''compareFile.csv'' \<mapsto> [PStr ''Metric'', PStr ''A'', PStr ''B''] # rows)) \<and>
      length rows = length (remdups (allkeys [ex_A, ex_B])) \<and>
      (\<forall>j<length (remdups (allkeys [ex_A, ex_B])).
           rows ! j ! 0 = (remdups (allkeys [ex_A, ex_B])) ! j \<and>
           (\<forall>i<length [ex_A, ex_B].
              rows ! j ! (i + 1) =
                (case dict_getitem ([ex_A, ex_B] ! i) ((remdups (allkeys [ex_A, ex_B])) ! j) of
                   Some v \<Rightarrow> v
                 | None \<Rightarrow> PStr ''NA''))))"
proof -
  have c: "compare_metrics [PStr ''metric_TMA_Frontend''] [ex_A, ex_B] [PStr ''Metric'', PStr ''A'', PStr ''B''] ''compareFile.csv'' Map.empty =
     (Inr (), [''compareFile.csv'' \<mapsto>
        [[PStr ''Metric'', PStr ''A'', PStr ''B''],
         [PStr ''metric_TMA_Frontend'', PStr ''NA'', PNum 0.3]]])"
    by (simp add: compare_metrics_valid[OF ex_out, where selected = "[PStr ''metric_TMA_Frontend'']"]
        rowlines_def dict_getitem_def ex_A_def ex_B_def)
  have u: "compare_metrics_all remdups [ex_A, ex_B] [PStr ''Metric'', PStr ''A'', PStr ''B''] ''compareFile.csv'' Map.empty =
     (Inr (), [''compareFile.csv'' \<mapsto>
        [[PStr ''Metric'', PStr ''A'', PStr ''B''],
         [PStr ''metric_CPI'', PNum 1.5, PNum 2.0],
         [PStr ''metric_TMA_Frontend'', PStr ''NA'', PNum 0.3]]])"
    by (simp add: compare_metrics_all_valid[OF ex_out] allkeys_def dict_keys_def rowlines_def
        dict_getitem_def ex_A_def ex_B_def)
  note t = selected_metric_cells[OF ex_out, where datalist = "[ex_A, ex_B]" and fields' = "[PStr ''Metric'', PStr ''A'', PStr ''B'']"
      and fs = Map.empty and list_of_set = remdups
      and metriclist = "[PStr ''metric_TMA_Frontend'']"
      and selected = "[PStr ''metric_TMA_Frontend'']"]
  have wc: "(\<exists>rows.
      compare_metrics [PStr ''metric_TMA_Frontend''] [ex_A, ex_B] [PStr ''Metric'', PStr ''A'', PStr ''B''] ''compareFile.csv'' Map.empty =
        (Inr (), Map.empty(''compareFile.csv'' \<mapsto> [PStr ''Metric'', PStr ''A'', PStr ''B''] # rows)) \<and>
      length rows = length [PStr ''metric_TMA_Frontend'' :: real pyval] \<and>
      (\<forall>j<length ([PStr ''metric_TMA_Frontend'']).
           rows ! j ! 0 = ([PStr ''metric_TMA_Frontend'']) ! j \<and>
           (\<forall>i<length [ex_A, ex_B].
              rows ! j ! (i + 1) =
                (case dict_getitem ([ex_A, ex_B] ! i) (([PStr ''metric_TMA_Frontend'']) ! j) of
                   Some v \<Rightarrow> v
                 | None \<Rightarrow> PStr ''NA''))))"
    using t[THEN conjunct1] by simp
  have wu: "(\<exists>rows.
      compare_metrics_all remdups [ex_A, ex_B] [PStr ''Metric'', PStr ''A'', PStr ''B''] ''compareFile.csv'' Map.empty =
        (Inr (), Map.empty(''compareFile.csv'' \<mapsto> [PStr ''Metric'', PStr ''A'', PStr ''B''] # rows)) \<and>
      length rows = length (remdups (allkeys [ex_A, ex_B])) \<and>
      (\<forall>j<length (remdups (allkeys [ex_A, ex_B])).
           rows ! j ! 0 = (remdups (allkeys [ex_A, ex_B])) ! j \<and>
           (\<forall>i<length [ex_A, ex_B].
              rows ! j ! (i + 1) =
                (case dict_getitem ([ex_A, ex_B] ! i) ((remdups (allkeys [ex_A, ex_B])) ! j) of
                   Some v \<Rightarrow> v
                 | None \<Rightarrow> PStr ''NA''))))"
    by (rule t[THEN conjunct2])
  show ?thesis by (intro conjI) (rule ex_out c u wc wu)+
qed

text \<open>
  C6. If the destination path does not end with \<^verbatim>\<open>.csv\<close>, nothing is written: the
  written files are unchanged, in \<^verbatim>\<open>compare_metrics\<close>, in \<^verbatim>\<open>compare_metrics_all\<close> and
  in a whole run. The union path fails with the error of \<^verbatim>\<open>invalid_filename\<close>, and so
  does the explicit and predefined path whenever it reaches the check, that is, unless
  the predefined selection has already raised.
\<close>

theorem invalid_extension_no_write:
  assumes "\<not> endswith out ''.csv''"
  shows "compare_metrics_all list_of_set datalist fields' out fs =
           (Inl (SystemError (out @ '' isn't a csv format!'')), fs) \<and>
         (metriclist \<noteq> [] \<or> (\<exists>selected. predefined_metrics datalist = Inr selected) \<longrightarrow>
            compare_metrics metriclist datalist fields' out fs =
              (Inl (SystemError (out @ '' isn't a csv format!'')), fs)) \<and>
         (\<exists>e. compare_metrics metriclist datalist fields' out fs = (Inl e, fs)) \<and>
         (args_output args = out \<longrightarrow>
            (\<exists>e. main env pyfloat list_of_set args fs = (Inl e, fs)))"
proof -
  have a: "compare_metrics_all list_of_set datalist fields' out fs =
           (Inl (SystemError (out @ '' isn't a csv format!'')), fs)"
    by (rule compare_metrics_all_invalid[OF assms])
  have b: "compare_metrics metriclist datalist fields' out fs =
              (Inl (SystemError (out @ '' isn't a csv format!'')), fs)"
    if "metriclist \<noteq> [] \<or> (\<exists>selected. predefined_metrics datalist = Inr selected)"
    using that assms by (auto simp: compare_metrics_def invalid_filename_def)
  have c: "\<exists>e. compare_metrics metriclist datalist fields' out fs = (Inl e, fs)"
    by (rule compare_metrics_invalid[OF assms])
  have d: "\<exists>e. main env pyfloat list_of_set args fs = (Inl e, fs)" if o: "args_output args = out"
  proof (cases "main env pyfloat list_of_set args fs")
    case (Pair r fs')
    show ?thesis
    proof (cases r)
      case (Inl e)
      with Pair main_fails_unchanged[of env pyfloat list_of_set args fs e fs'] show ?thesis by simp
    next
      case (Inr u)
      with Pair have m: "main env pyfloat list_of_set args fs = (Inr (), fs')" by simp
      from main_Inr[OF m] obtain files jsondata where
        f: "args_files args = Some files"
        and l: "load env pyfloat (args_perfspect args) (split CHR '','' files) [] [PStr ''Metric'']
             = Inr (jsondata, PStr ''Metric'' # map PStr (split CHR '','' files))"
        by blast
      from m f have ne: "files \<noteq> []" by (auto simp: main_def)
      from compare_metrics_invalid[OF assms] compare_metrics_all_invalid[OF assms]
      have "\<exists>e. main env pyfloat list_of_set args fs = (Inl e, fs)"
        unfolding main_loaded[OF f ne l] o by (simp only: split: if_split) blast
      with m show ?thesis by simp
    qed
  qed
  from a b c d show ?thesis by blast
qed

theorem invalid_extension_no_write_witness:
  "\<not> endswith ''result.txt'' ''.csv'' \<and>
   compare_metrics_all remdups [ex_A, ex_B] [PStr ''Metric'', PStr ''A'', PStr ''B'']
       ''result.txt'' Map.empty =
     (Inl (SystemError ''result.txt isn't a csv format!''), Map.empty) \<and>
   compare_metrics [PStr ''metric_CPI''] [ex_A, ex_B] [PStr ''Metric'', PStr ''A'', PStr ''B'']
       ''result.txt'' Map.empty =
     (Inl (SystemError ''result.txt isn't a csv format!''), Map.empty) \<and>
   (\<exists>e. main ex_env ex_float remdups (ex_args\<lparr>args_output := ''result.txt''\<rparr>) Map.empty
          = (Inl e, Map.empty))"
proof -
  have n: "\<not> endswith ''result.txt'' ''.csv''" by (simp add: endswith_def)
  have m: "[PStr ''metric_CPI''] \<noteq> ([] :: real pyval list)" by simp
  have o: "args_output (ex_args\<lparr>args_output := ''result.txt''\<rparr>) = ''result.txt''" by simp
  from invalid_extension_no_write[OF n, of remdups "[ex_A, ex_B]"
      "[PStr ''Metric'', PStr ''A'', PStr ''B'']" Map.empty "[PStr ''metric_CPI'']"
      "ex_args\<lparr>args_output := ''result.txt''\<rparr>" ex_env ex_float] n m o
  show ?thesis by simp
qed

text \<open>
  C8. If a file named on the command line fails the readability check, or its reader
  fails for any other reason, the run ends with a failure and the written files are
  unchanged, whatever the other files are: the loading loop fails as a whole and the
  comparison is never reached.
\<close>

theorem load_all_or_nothing:
  assumes "args_files args = Some files"
    and "filename \<in> set (split CHR '','' files)"
    and "\<not> access_ok env filename \<or>
         (\<exists>e. read_file env pyfloat (args_perfspect args) filename = Inl e)"
  shows "\<exists>e. main env pyfloat list_of_set args fs = (Inl e, fs) \<and>
           (files \<noteq> [] \<longrightarrow>
              load env pyfloat (args_perfspect args) (split CHR '','' files) [] [PStr ''Metric'']
                = Inl e)"
proof (cases "files = []")
  case True
  with assms(1) show ?thesis by (simp add: main_no_files)
next
  case False
  from assms(3) obtain e where "read_file env pyfloat (args_perfspect args) filename = Inl e"
    using read_file_unreadable by blast
  from load_fails[OF assms(2) this] obtain e' where
    l: "load env pyfloat (args_perfspect args) (split CHR '','' files) [] [PStr ''Metric''] = Inl e'"
    by blast
  from main_load_fails[OF assms(1) False l] l show ?thesis by blast
qed

theorem load_all_or_nothing_witness:
  "args_files (ex_args\<lparr>args_files := Some ''A,U''\<rparr>) = Some ''A,U'' \<and>
   ''U'' \<in> set (split CHR '','' ''A,U'') \<and>
   \<not> access_ok ex_env ''U'' \<and>
   read_file ex_env ex_float True ''A'' = Inr ex_A \<and>
   (\<exists>e. main ex_env ex_float remdups (ex_args\<lparr>args_files := Some ''A,U''\<rparr>) Map.empty
           = (Inl e, Map.empty))"
proof -
  have f: "args_files (ex_args\<lparr>args_files := Some ''A,U''\<rparr>) = Some ''A,U''" by simp
  have m: "''U'' \<in> set (split CHR '','' ''A,U'')" by simp
  have u: "\<not> access_ok ex_env ''U''" by (simp add: ex_env_def)
  from load_all_or_nothing[OF f m disjI1, OF u, of ex_float remdups Map.empty] f m u ex_read_A
  show ?thesis by blast
qed

text \<open>
  C9. No minimum number of input files is enforced. When the files flag names a single
  file (a non-empty text without a comma) that its reader loads, the destination ends
  with \<^verbatim>\<open>.csv\<close>, and, in predefined mode, the keys of the file are text, the run reaches
  the end of \<^verbatim>\<open>main\<close> and writes a table whose header is the label \<^verbatim>\<open>Metric\<close> and the
  file name and whose rows all have two cells.
\<close>

theorem single_file_run:
  assumes "args_files args = Some filename" and "filename \<noteq> []"
    and "CHR '','' \<notin> set filename"
    and "read_file env pyfloat (args_perfspect args) filename = Inr data"
    and "endswith (args_output args) ''.csv''"
    and "args_metriclist args = [''d''] \<longrightarrow> (\<exists>names. dict_keys data = map PStr names)"
  shows "\<exists>rows. main env pyfloat list_of_set args fs =
                  (Inr (), fs(args_output args \<mapsto> [PStr ''Metric'', PStr filename] # rows)) \<and>
                (\<forall>r\<in>set rows. length r = 2)"
proof -
  have l: "load env pyfloat (args_perfspect args) (split CHR '','' filename) [] [PStr ''Metric'']
             = Inr ([data], [PStr ''Metric'', PStr filename])"
    using assms(3,4) by (simp add: split_no_sep)
  have len: "\<forall>r\<in>set (map (rowlines [data]) selected). length r = 2" for selected
    by (simp add: length_rowlines)
  show ?thesis
  proof (cases "args_metriclist args = []")
    case True
    then have "main env pyfloat list_of_set args fs =
        (Inr (), fs(args_output args \<mapsto> [PStr ''Metric'', PStr filename] #
           map (rowlines [data]) (list_of_set (allkeys [data]))))"
      by (simp add: main_loaded[OF assms(1,2) l] compare_metrics_all_valid[OF assms(5)])
    with len show ?thesis by blast
  next
    case False
    show ?thesis
    proof (cases "args_metriclist args = [''d'']")
      case True
      with assms(6) obtain names where "dict_keys data = map PStr names" by blast
      then have p: "predefined_metrics [data] =
          Inr (map PStr (filter (\<lambda>s. startswith s ''metric_TMA'' \<or> s \<in> set well_known) names))"
        by (simp add: predefined_metrics_def predefined_filter_strings)
      from True have "main env pyfloat list_of_set args fs =
        (Inr (), fs(args_output args \<mapsto> [PStr ''Metric'', PStr filename] #
           map (rowlines [data])
             (map PStr (filter (\<lambda>s. startswith s ''metric_TMA'' \<or> s \<in> set well_known) names))))"
        using compare_metrics_valid[OF assms(5), of "[]" "[data]"
            "map PStr (filter (\<lambda>s. startswith s ''metric_TMA'' \<or> s \<in> set well_known) names)"] p
        by (simp add: main_loaded[OF assms(1,2) l])
      with len show ?thesis by blast
    next
      case d: False
      with False have "main env pyfloat list_of_set args fs =
        (Inr (), fs(args_output args \<mapsto> [PStr ''Metric'', PStr filename] #
           map (rowlines [data]) (map PStr (args_metriclist args))))"
        using compare_metrics_valid[OF assms(5), of "map PStr (args_metriclist args)" "[data]"
            "map PStr (args_metriclist args)"]
        by (simp add: main_loaded[OF assms(1,2) l])
      with len show ?thesis by blast
    qed
  qed
qed

theorem single_file_run_witness:
  "args_files (ex_args\<lparr>args_files := Some ''A''\<rparr>) = Some ''A'' \<and>
   CHR '','' \<notin> set ''A'' \<and>
   read_file ex_env ex_float (args_perfspect (ex_args\<lparr>args_files := Some ''A''\<rparr>)) ''A''
     = Inr ex_A \<and>
   endswith (args_output (ex_args\<lparr>args_files := Some ''A''\<rparr>)) ''.csv'' \<and>
   args_metriclist (ex_args\<lparr>args_files := Some ''A''\<rparr>) \<noteq> [''d''] \<and>
   (\<exists>rows. main ex_env ex_float remdups (ex_args\<lparr>args_files := Some ''A''\<rparr>) Map.empty =
       (Inr (), [args_output (ex_args\<lparr>args_files := Some ''A''\<rparr>) \<mapsto>
                   [PStr ''Metric'', PStr ''A''] # rows]) \<and>
     (\<forall>r\<in>set rows. length r = 2))"
proof -
  let ?args = "ex_args\<lparr>args_files := Some ''A''\<rparr>"
  have f: "args_files ?args = Some ''A''" by simp
  have n: "''A'' \<noteq> []" by simp
  have c: "CHR '','' \<notin> set ''A''" by simp
  have r: "read_file ex_env ex_float (args_perfspect ?args) ''A'' = Inr ex_A"
    by (simp add: ex_args_sel ex_read_A)
  have o: "endswith (args_output ?args) ''.csv''" by (simp add: ex_args_sel ex_out)
  have d: "args_metriclist ?args \<noteq> [''d'']" by (simp add: ex_args_sel)
  then have d': "args_metriclist ?args = [''d''] \<longrightarrow> (\<exists>names. dict_keys ex_A = map PStr names)"
    by simp
  from single_file_run[OF f n c r o d', of remdups Map.empty] f c r o d
  show ?thesis by blast
qed

text \<open>
  C10. In header-CSV mode, when several data rows have the same \<^verbatim>\<open>metrics\<close> value,
  the mapping returned by \<^verbatim>\<open>csv2json\<close> holds, for that metric, the float of the
  \<^verbatim>\<open>avg\<close> of the last such row.
\<close>

theorem csv2json_last_wins:
  assumes "csv2json env pyfloat filename = Inr data"
    and "DictReader (csv_reader env filename) = pre @ r # post"
    and "dict_getitem r ''metrics'' = Some key"
    and "\<forall>r'\<in>set post. dict_getitem r' ''metrics'' \<noteq> Some key"
  shows "\<exists>a x. dict_getitem r ''avg'' = Some (Some a) \<and> pyfloat a = Some x \<and>
           dict_getitem data (pykey key) = Some (PNum x)"
proof -
  from assms(1,2) have rows: "csv2json_rows pyfloat (pre @ r # post) [] = Inr data"
    by (simp add: csv2json_def split: if_splits)
  then obtain mid where mid: "csv2json_rows pyfloat (r # post) mid = Inr data"
    unfolding csv2json_rows_append by (auto split: sum.splits)
  from csv2json_rows_step[OF mid assms(3)] obtain a x where
    a: "dict_getitem r ''avg'' = Some (Some a)" and x: "pyfloat a = Some x"
    and rest: "csv2json_rows pyfloat post (dict_setitem mid (pykey key) (PNum x)) = Inr data"
    by blast
  from csv2json_rows_other_keys[OF rest assms(4)]
  have "dict_getitem data (pykey key) = Some (PNum x)"
    by (simp add: dict_getitem_setitem)
  with a x show ?thesis by blast
qed

theorem csv2json_last_wins_witness:
  "csv2json ex_env ex_float ''D'' = Inr ex_D \<and>
   DictReader (csv_reader ex_env ''D'') =
     [[(''metrics'', Some ''metric_CPI''), (''avg'', Some ''1.5'')]] @
     [(''metrics'', Some ''metric_CPI''), (''avg'', Some ''2.0'')] #
     [[(''metrics'', Some ''metric_TMA_Frontend''), (''avg'', Some ''0.3'')]] \<and>
   dict_getitem ex_D (PStr ''metric_CPI'') = Some (PNum 2.0) \<and>
   (\<exists>a x. dict_getitem [(''metrics'', Some ''metric_CPI''), (''avg'', Some ''2.0'')] ''avg''
             = Some (Some a) \<and>
          ex_float a = Some x \<and>
          dict_getitem ex_D (pykey (Some ''metric_CPI'')) = Some (PNum x))"
proof -
  have k: "dict_getitem [(''metrics'', Some ''metric_CPI''), (''avg'', Some ''2.0'')] ''metrics''
             = Some (Some ''metric_CPI'')"
    by (simp add: dict_getitem_def)
  have p: "\<forall>r'\<in>set [[(''metrics'', Some ''metric_TMA_Frontend''), (''avg'', Some ''0.3'')]].
             dict_getitem r' ''metrics'' \<noteq> Some (Some ''metric_CPI'')"
    by (simp add: dict_getitem_def)
  have v: "dict_getitem ex_D (PStr ''metric_CPI'') = Some (PNum 2.0)"
    by (simp add: dict_getitem_def ex_D_def)
  have w: "\<exists>a x. dict_getitem [(''metrics'', Some ''metric_CPI''), (''avg'', Some ''2.0'')] ''avg''
             = Some (Some a) \<and>
          ex_float a = Some x \<and>
          dict_getitem ex_D (pykey (Some ''metric_CPI'')) = Some (PNum x)"
    by (rule csv2json_last_wins[OF ex_read_D ex_rows_D k p])
  show ?thesis by (intro conjI) (rule ex_read_D ex_rows_D v w)+
qed

text \<open>
  C7. The claim asks that every fatal condition, a missing \<^verbatim>\<open>metrics\<close> or \<^verbatim>\<open>avg\<close>
  column among them, ends the process with a non-zero exit status and a diagnostic.
  For the missing column the code does not: when the first file on which the run fails
  is a readable header-CSV file whose header lacks one of the two columns and which has
  a data row that is not blank, the handler's \<^verbatim>\<open>raise SystemExit()\<close> ends the run with
  exit status 0 and without a diagnostic; nothing is written. The sibling failures
  (\<open>sibling_failures_fatal\<close>) end with status 1 and a message.
\<close>

theorem missing_column_exit_status:
  assumes "loads_until env pyfloat args pre filename post"
    and "access_ok env filename"
    and "args_perfspect args"
    and "csv_reader env filename = fieldnames # rest"
    and "''metrics'' \<notin> set fieldnames \<or> ''avg'' \<notin> set fieldnames"
    and "\<exists>row\<in>set rest. row \<noteq> []"
  shows "main env pyfloat list_of_set args fs = (Inl (SystemExit None), fs) \<and>
         exit_status (fst (main env pyfloat list_of_set args fs)) = 0 \<and>
         \<not> diagnostic (SystemExit None) \<and>
         \<not> fatal (main env pyfloat list_of_set args fs) fs e"
proof -
  from read_file_missing_column[OF assms(2,4,5,6)] assms(3)
  have "read_file env pyfloat (args_perfspect args) filename = Inl (SystemExit None)" by simp
  from main_first_failure[OF assms(1) this]
  have m: "main env pyfloat list_of_set args fs = (Inl (SystemExit None), fs)" .
  show ?thesis by (simp add: m fatal_def)
qed

theorem missing_column_exit_status_witness:
  "loads_until ex_env ex_float (ex_args\<lparr>args_files := Some ''M''\<rparr>) [] ''M'' [] \<and>
   access_ok ex_env ''M'' \<and>
   args_perfspect (ex_args\<lparr>args_files := Some ''M''\<rparr>) \<and>
   csv_reader ex_env ''M'' = [''name'', ''avg''] # [[''metric_CPI'', ''1.5'']] \<and>
   ''metrics'' \<notin> set [''name'', ''avg''] \<and>
   [''metric_CPI'', ''1.5''] \<noteq> [] \<and>
   main ex_env ex_float remdups (ex_args\<lparr>args_files := Some ''M''\<rparr>) Map.empty =
     (Inl (SystemExit None), Map.empty) \<and>
   exit_status (fst (main ex_env ex_float remdups
     (ex_args\<lparr>args_files := Some ''M''\<rparr>) Map.empty)) = 0 \<and>
   \<not> diagnostic (SystemExit None) \<and>
   \<not> fatal (main ex_env ex_float remdups (ex_args\<lparr>args_files := Some ''M''\<rparr>) Map.empty)
       Map.empty (SystemExit None)"
proof -
  let ?args = "ex_args\<lparr>args_files := Some ''M''\<rparr>"
  have l: "loads_until ex_env ex_float ?args [] ''M'' []"
    by (simp add: loads_until_def)
  have a: "access_ok ex_env ''M''" by (simp add: ex_env_def)
  have p: "args_perfspect ?args" by (simp add: ex_args_sel)
  have c: "csv_reader ex_env ''M'' = [''name'', ''avg''] # [[''metric_CPI'', ''1.5'']]"
    by (simp add: ex_env_def ex_csv_def)
  have m: "''metrics'' \<notin> set [''name'', ''avg'']" by simp
  have n: "[''metric_CPI'', ''1.5''] \<noteq> []" by simp
  have d: "\<exists>row\<in>set [[''metric_CPI'', ''1.5'']]. row \<noteq> []" by simp
  note t = missing_column_exit_status[OF l a p c disjI1 d, OF m,
      of remdups Map.empty "SystemExit None"]
  show ?thesis
    by (intro conjI) (rule l a p c m n t[THEN conjunct1] t[THEN conjunct2, THEN conjunct1]
        t[THEN conjunct2, THEN conjunct2, THEN conjunct1]
        t[THEN conjunct2, THEN conjunct2, THEN conjunct2])+
qed

end
